theory Spec2Isabelle
  imports Main
begin

section \<open>The dashboard client of lean-cli (package api, client.go)\<close>

text \<open>
  The client sends one HTTP call to the dashboard of a region, answers a 401 by a
  two-factor exchange, classifies the response and saves its cookie jar. Everything
  the file calls outside itself (the network, the cookie jar library, the prompt, the
  environment, the region resolver) is a field of a record \<open>World\<close>; every call that
  leaves the process is appended to a trace, and each answer of the outside may depend
  on the trace so far.
\<close>

subsection \<open>Values\<close>

text \<open>
  Modelled from the spec: package \<open>regions\<close> (the type \<open>regions.Region\<close> and its names
  \<open>CN\<close>, \<open>US\<close>, \<open>TAB\<close>) is not among the sources. The spec calls a region a named
  deployment zone and has regions outside the static table; \<open>OtherRegion\<close> stands for
  every value of the type that is none of the three.
\<close>

datatype Region = CN | US | TAB | OtherRegion nat

text \<open>
  A Go \<open>error\<close> value. \<open>ErrorString\<close> is what \<open>errors.New\<close> and \<open>fmt.Errorf\<close> build (the
  message, as bytes), and is also how a collaborator's error is written;
  \<open>StructuredError\<close> is the error with a code and a message that
  \<open>NewErrorFromResponse\<close> builds.
\<close>

datatype error = ErrorString string | StructuredError int string

text \<open>The argument of a \<open>panic\<close>: an error value or a string.\<close>

datatype panic = PanicError error | PanicString string

text \<open>
  How a Go function that returns \<open>(T, error)\<close> ends: it panics, it returns a non-nil
  error, or it returns a value.
\<close>

datatype 'a result = Panicked panic | Failed error | Returned 'a

text \<open>A value of type \<open>interface{}\<close> in a JSON payload.\<close>

datatype any =
    AnyNil
  | AnyBool bool
  | AnyInt int
  | AnyString string
  | AnyList "any list"
  | AnyMap "string \<Rightarrow> any option"

text \<open>
  A \<open>*cookiejar.Jar\<close>: the identity of the object (jars are compared as pointers) and
  the file it was opened on. What the jar holds is the library's business: see
  \<open>jarCookies\<close> below. The pointer is never nil here: \<open>newCookieJar\<close> builds every
  client's jar.
\<close>

record Jar =
  jar_id :: nat
  Filename :: string

record Cookie =
  Name :: string
  Value :: string

text \<open>The fields of \<open>grequests.RequestOptions\<close> that the file sets; \<open>None\<close> is nil.\<close>

record RequestOptions =
  Headers :: "(string \<rightharpoonup> string) option"
  JSON :: "any option"
  CookieJar :: "Jar option"
  UseCookieJar :: bool
  UserAgent :: string

text \<open>What the transport hands to grequests: the status, the headers and the body.\<close>

record RawResponse =
  rawStatusCode :: int
  rawHeader :: "string \<rightharpoonup> string list"
  rawBody :: string

record Response =
  Ok :: bool
  StatusCode :: int
  Header :: "string \<rightharpoonup> string list"
  body :: string

text \<open>
  grequests builds its \<open>Response\<close> from the transport's: \<open>Ok\<close> is set exactly for a
  status from 200 to 299.
\<close>

definition buildResponse :: "RawResponse \<Rightarrow> Response" where
  "buildResponse raw =
     \<lparr>Ok = (200 \<le> rawStatusCode raw \<and> rawStatusCode raw < 300),
      StatusCode = rawStatusCode raw,
      Header = rawHeader raw,
      body = rawBody raw\<rparr>"

record Client =
  CookieJar :: Jar
  Region :: Region
  AppID :: string

subsection \<open>The trace and the outside world\<close>

datatype Event =
    HTTPRequest string string RequestOptions
  | Get2FACodeCall
  | MkdirAll string
  | JarNew string
  | JarSave Jar

record State =
  trace :: "Event list"
  nextJar :: nat

definition emit :: "Event \<Rightarrow> State \<Rightarrow> State" where
  "emit e s = s\<lparr>trace := trace s @ [e]\<rparr>"

text \<open>
  The collaborators. \<open>Getenv\<close> is \<open>os.Getenv\<close>; \<open>GetAppRegion\<close> is
  \<open>apps.GetAppRegion\<close>, \<open>ConfigDir\<close> is \<open>utils.ConfigDir\<close> and \<open>Version\<close> is
  \<open>version.Version\<close> (packages of the repository that are not among the sources);
  \<open>Join\<close> is \<open>filepath.Join\<close> and \<open>Parse\<close> is \<open>url.Parse\<close> (a parsed URL is kept as
  a string). \<open>roundTrip\<close> is the network: the verb, the URL and the options give a
  transport error or a response. \<open>Get2FACode\<close> is the current value of the package
  variable of that name. \<open>jarLoad\<close> is the error of \<open>cookiejar.New\<close> on a file name, if
  any; \<open>jarSave\<close> is the error of \<open>Save\<close>, if any; \<open>jarCookies\<close> is the jar's \<open>Cookies\<close>
  for a URL. \<open>decodeToken\<close> is \<open>resp.JSON\<close> into a struct with the one field
  \<open>token\<close>: an error, or the token read. \<open>decodeError\<close> is the decoding of a JSON error
  body into its code and message (see \<open>NewErrorFromResponse\<close>).
\<close>

record World =
  Getenv :: "string \<Rightarrow> string"
  GetAppRegion :: "string \<Rightarrow> error + Region"
  ConfigDir :: string
  Version :: string
  Join :: "string list \<Rightarrow> string"
  Parse :: "string \<Rightarrow> error + string"
  roundTrip :: "Event list \<Rightarrow> string \<Rightarrow> string \<Rightarrow> RequestOptions \<Rightarrow> error + RawResponse"
  Get2FACode :: "Event list \<Rightarrow> error + int"
  jarLoad :: "Event list \<Rightarrow> string \<Rightarrow> error option"
  jarSave :: "Event list \<Rightarrow> Jar \<Rightarrow> error option"
  jarCookies :: "Event list \<Rightarrow> Jar \<Rightarrow> string \<Rightarrow> Cookie list"
  decodeToken :: "string \<Rightarrow> error + string"
  decodeError :: "string \<Rightarrow> int \<times> string"

subsection \<open>Library functions the file calls\<close>

text \<open>
  \<open>grequests.Get\<close>, \<open>Post\<close>, \<open>Put\<close>, \<open>Delete\<close> and \<open>Patch\<close> are
  \<open>DoRegularRequest\<close> with their verb: one round trip, recorded in the trace.
\<close>

definition DoRegularRequest ::
  "World \<Rightarrow> string \<Rightarrow> string \<Rightarrow> RequestOptions \<Rightarrow> State \<Rightarrow> (error + Response) \<times> State" where
  "DoRegularRequest w verb url ro s =
     ((case roundTrip w (trace s) verb url ro of
         Inl err \<Rightarrow> Inl err
       | Inr raw \<Rightarrow> Inr (buildResponse raw)),
      emit (HTTPRequest verb url ro) s)"

definition grequests_Get :: "World \<Rightarrow> string \<Rightarrow> RequestOptions \<Rightarrow> State \<Rightarrow> (error + Response) \<times> State" where
  "grequests_Get w = DoRegularRequest w ''GET''"

definition grequests_Post :: "World \<Rightarrow> string \<Rightarrow> RequestOptions \<Rightarrow> State \<Rightarrow> (error + Response) \<times> State" where
  "grequests_Post w = DoRegularRequest w ''POST''"

definition grequests_Put :: "World \<Rightarrow> string \<Rightarrow> RequestOptions \<Rightarrow> State \<Rightarrow> (error + Response) \<times> State" where
  "grequests_Put w = DoRegularRequest w ''PUT''"

definition grequests_Delete :: "World \<Rightarrow> string \<Rightarrow> RequestOptions \<Rightarrow> State \<Rightarrow> (error + Response) \<times> State" where
  "grequests_Delete w = DoRegularRequest w ''DELETE''"

definition grequests_Patch :: "World \<Rightarrow> string \<Rightarrow> RequestOptions \<Rightarrow> State \<Rightarrow> (error + Response) \<times> State" where
  "grequests_Patch w = DoRegularRequest w ''PATCH''"

text \<open>
  \<open>cookiejar.New\<close> opens a jar on a file: an error, or a new jar object, distinct from
  every jar made before.
\<close>

definition cookiejar_New :: "World \<Rightarrow> string \<Rightarrow> State \<Rightarrow> (error + Jar) \<times> State" where
  "cookiejar_New w filename s =
     (case jarLoad w (trace s) filename of
        Some err \<Rightarrow> (Inl err, emit (JarNew filename) s)
      | None \<Rightarrow>
          (Inr \<lparr>jar_id = nextJar s, Filename = filename\<rparr>,
           (emit (JarNew filename) s)\<lparr>nextJar := Suc (nextJar s)\<rparr>))"

definition Jar_Save :: "World \<Rightarrow> Jar \<Rightarrow> State \<Rightarrow> error option \<times> State" where
  "Jar_Save w jar s = (jarSave w (trace s) jar, emit (JarSave jar) s)"

text \<open>\<open>http.Header.Get\<close>: the first value of the key, or the empty string.\<close>

definition Header_Get :: "(string \<rightharpoonup> string list) \<Rightarrow> string \<Rightarrow> string" where
  "Header_Get h key = (case h key of None \<Rightarrow> '''' | Some [] \<Rightarrow> '''' | Some (v # vs) \<Rightarrow> v)"

definition HasPrefix :: "string \<Rightarrow> string \<Rightarrow> bool" where
  "HasPrefix s pre = (take (length pre) s = pre)"

text \<open>
  \<open>strings.TrimSpace\<close> removes the white space of Unicode at both ends. A string is
  its UTF-8 bytes, so a white space character is one of these byte sequences: the six
  of ASCII, U+0085, U+00A0, U+1680, U+2000 to U+200A, U+2028, U+2029, U+202F, U+205F
  and U+3000.
\<close>

definition spaces :: "string list" where
  "spaces =
     [[CHR 0x09], [CHR 0x0A], [CHR 0x0B], [CHR 0x0C], [CHR 0x0D], [CHR 0x20],
      [CHR 0xC2, CHR 0x85], [CHR 0xC2, CHR 0xA0],
      [CHR 0xE1, CHR 0x9A, CHR 0x80],
      [CHR 0xE2, CHR 0x80, CHR 0x80], [CHR 0xE2, CHR 0x80, CHR 0x81],
      [CHR 0xE2, CHR 0x80, CHR 0x82], [CHR 0xE2, CHR 0x80, CHR 0x83],
      [CHR 0xE2, CHR 0x80, CHR 0x84], [CHR 0xE2, CHR 0x80, CHR 0x85],
      [CHR 0xE2, CHR 0x80, CHR 0x86], [CHR 0xE2, CHR 0x80, CHR 0x87],
      [CHR 0xE2, CHR 0x80, CHR 0x88], [CHR 0xE2, CHR 0x80, CHR 0x89],
      [CHR 0xE2, CHR 0x80, CHR 0x8A],
      [CHR 0xE2, CHR 0x80, CHR 0xA8], [CHR 0xE2, CHR 0x80, CHR 0xA9],
      [CHR 0xE2, CHR 0x80, CHR 0xAF], [CHR 0xE2, CHR 0x81, CHR 0x9F],
      [CHR 0xE3, CHR 0x80, CHR 0x80]]"

text \<open>Drop leading members of \<open>ps\<close> from \<open>s\<close>, at most \<open>n\<close> of them.\<close>

fun trimLeft :: "nat \<Rightarrow> string list \<Rightarrow> string \<Rightarrow> string" where
  "trimLeft 0 ps s = s"
| "trimLeft (Suc n) ps s =
     (case find (\<lambda>p. take (length p) s = p) ps of
        None \<Rightarrow> s
      | Some p \<Rightarrow> trimLeft n ps (drop (length p) s))"

definition TrimSpace :: "string \<Rightarrow> string" where
  "TrimSpace s =
     (let l = trimLeft (length s) spaces s
      in rev (trimLeft (length l) (map rev spaces) (rev l)))"

text \<open>\<open>%d\<close> of \<open>fmt\<close>: an integer in decimal.\<close>

fun digitsOf :: "nat \<Rightarrow> string" where
  "digitsOf n =
     (if n < 10 then [''0123456789'' ! n]
      else digitsOf (n div 10) @ [''0123456789'' ! (n mod 10)])"

declare digitsOf.simps [simp del]

definition Itoa :: "int \<Rightarrow> string" where
  "Itoa i = (if i < 0 then CHR ''-'' # digitsOf (nat (- i)) else digitsOf (nat i))"

text \<open>\<open>fmt.Errorf("HTTP Error: %d, %s %s", status, method, path)\<close>.\<close>

definition HTTPError :: "int \<Rightarrow> string \<Rightarrow> string \<Rightarrow> error" where
  "HTTPError status verb path =
     ErrorString (''HTTP Error: '' @ Itoa status @ '', '' @ verb @ '' '' @ path)"

text \<open>
  \<open>strconv.Atoi\<close> on a platform whose \<open>int\<close> has 64 bits: an optional sign, then one
  decimal digit or more, and a value that fits; \<open>None\<close> is its error.
\<close>

definition isDigit :: "char \<Rightarrow> bool" where
  "isDigit c = (c \<in> set ''0123456789'')"

definition digitVal :: "char \<Rightarrow> int" where
  "digitVal c = int (of_char c) - 48"

definition Atoi :: "string \<Rightarrow> int option" where
  "Atoi s =
     (let neg = (case s of [] \<Rightarrow> False | c # cs \<Rightarrow> c = CHR ''-'');
          ds = (case s of [] \<Rightarrow> [] | c # cs \<Rightarrow> if c = CHR ''-'' \<or> c = CHR ''+'' then cs else s);
          n = foldl (\<lambda>acc c. acc * 10 + digitVal c) 0 ds;
          v = (if neg then - n else n)
      in if ds = [] \<or> \<not> list_all isDigit ds then None
         else if v < - (2 ^ 63) \<or> 2 ^ 63 \<le> v then None
         else Some v)"

text \<open>
  Modelled from the spec: \<open>NewErrorFromResponse\<close> is a function of package api that is
  not among the sources. The spec has it parse the JSON body of the response into a
  structured error that carries a code and a message; the decoding itself is the
  world's \<open>decodeError\<close>.
\<close>

definition NewErrorFromResponse :: "World \<Rightarrow> Response \<Rightarrow> error" where
  "NewErrorFromResponse w resp =
     (case decodeError w (body resp) of (code, message) \<Rightarrow> StructuredError code message)"

subsection \<open>The code of client.go\<close>

definition dashboardBaseUrls :: "Region \<rightharpoonup> string" where
  "dashboardBaseUrls =
     [CN \<mapsto> ''https://leancloud.cn'',
      US \<mapsto> ''https://us.leancloud.cn'',
      TAB \<mapsto> ''https://tab.leancloud.cn'']"

text \<open>
  The message of the error of the default \<open>Get2FACode\<close>, in UTF-8: twelve Chinese
  characters that say the two-factor code has to be a number.
\<close>

definition codeNotNumeric :: string where
  "codeNotNumeric =
     [CHR 0xE4, CHR 0xBA, CHR 0x8C, CHR 0xE6, CHR 0xAC, CHR 0xA1, CHR 0xE8, CHR 0xAE, CHR 0xA4,
      CHR 0xE8, CHR 0xAF, CHR 0x81, CHR 0xE9, CHR 0xAA, CHR 0x8C, CHR 0xE8, CHR 0xAF, CHR 0x81,
      CHR 0xE7, CHR 0xA0, CHR 0x81, CHR 0xE5, CHR 0xBA, CHR 0x94, CHR 0xE8, CHR 0xAF, CHR 0xA5,
      CHR 0xE4, CHR 0xB8, CHR 0xBA, CHR 0xE6, CHR 0x95, CHR 0xB0, CHR 0xE5, CHR 0xAD, CHR 0x97]"

text \<open>
  The initial value of the variable \<open>Get2FACode\<close>, as a function of the line the
  prompt (\<open>wizard.Ask\<close>) stored in \<open>result\<close>.
\<close>

definition defaultGet2FACode :: "string \<Rightarrow> error + int" where
  "defaultGet2FACode answer =
     (case Atoi answer of
        None \<Rightarrow> Inl (ErrorString codeNotNumeric)
      | Some code \<Rightarrow> Inr code)"

definition newCookieJar :: "World \<Rightarrow> State \<Rightarrow> (panic + Jar) \<times> State" where
  "newCookieJar w s =
     (let jarFileDir = Join w [ConfigDir w, ''leancloud''];
          s1 = emit (MkdirAll jarFileDir) s
      in case cookiejar_New w (Join w [jarFileDir, ''cookies'']) s1 of
           (Inl err, s2) \<Rightarrow> (Inl (PanicError err), s2)
         | (Inr jar, s2) \<Rightarrow> (Inr jar, s2))"

definition NewClientByRegion :: "World \<Rightarrow> Region \<Rightarrow> State \<Rightarrow> (panic + Client) \<times> State" where
  "NewClientByRegion w region s =
     (case newCookieJar w s of
        (Inl p, s1) \<Rightarrow> (Inl p, s1)
      | (Inr jar, s1) \<Rightarrow> (Inr \<lparr>CookieJar = jar, Region = region, AppID = ''''\<rparr>, s1))"

definition GetBaseURL :: "World \<Rightarrow> Client \<Rightarrow> panic + string" where
  "GetBaseURL w client =
     (let envBaseURL = Getenv w ''LEANCLOUD_DASHBOARD''
      in if envBaseURL \<noteq> '''' then Inr envBaseURL
         else
           (case (if AppID client \<noteq> '''' then GetAppRegion w (AppID client)
                  else Inr (Region client)) of
              Inl err \<Rightarrow> Inl (PanicError err)
            | Inr region \<Rightarrow>
                (case dashboardBaseUrls region of
                   Some url \<Rightarrow> Inr url
                 | None \<Rightarrow> Inl (PanicString ''invalid region''))))"

text \<open>The loop of \<open>options\<close>: the value of the first cookie named \<open>XSRF-TOKEN\<close>.\<close>

fun xsrfOf :: "Cookie list \<Rightarrow> string" where
  "xsrfOf [] = ''''"
| "xsrfOf (cookie # cookies) =
     (if Name cookie = ''XSRF-TOKEN'' then Value cookie else xsrfOf cookies)"

definition options :: "World \<Rightarrow> Client \<Rightarrow> State \<Rightarrow> RequestOptions result" where
  "options w client s =
     (case GetBaseURL w client of
        Inl p \<Rightarrow> Panicked p
      | Inr base \<Rightarrow>
          (case Parse w base of
             Inl err \<Rightarrow> Panicked (PanicError err)
           | Inr u \<Rightarrow>
               Returned
                 \<lparr>Headers =
                    Some [''X-XSRF-TOKEN'' \<mapsto>
                      xsrfOf (jarCookies w (trace s) (Client.CookieJar client) u)],
                  JSON = None,
                  CookieJar = Some (Client.CookieJar client),
                  UseCookieJar = True,
                  UserAgent = ''LeanCloud-CLI/'' @ Version w\<rparr>))"

text \<open>The test both classifications make on a response that is not \<open>Ok\<close>.\<close>

definition isJSON :: "Response \<Rightarrow> bool" where
  "isJSON resp =
     HasPrefix (TrimSpace (Header_Get (Header resp) ''Content-Type'')) ''application/json''"

definition checkAndDo2FA :: "World \<Rightarrow> Client \<Rightarrow> Response \<Rightarrow> State \<Rightarrow> Response result \<times> State" where
  "checkAndDo2FA w client resp s =
     (if StatusCode resp \<noteq> 401 then (Returned resp, s)
      else
        (case decodeToken w (body resp) of
           Inl err \<Rightarrow> (Failed err, s)
         | Inr token \<Rightarrow>
             (case Get2FACode w (trace s) of
                Inl err \<Rightarrow> (Failed err, emit Get2FACodeCall s)
              | Inr code \<Rightarrow>
                  (case cookiejar_New w (Join w [ConfigDir w, ''leancloud'', ''cookies''])
                          (emit Get2FACodeCall s) of
                     (Inl err, s2) \<Rightarrow> (Failed err, s2)
                   | (Inr jar, s2) \<Rightarrow>
                       (case GetBaseURL w client of
                          Inl p \<Rightarrow> (Panicked p, s2)
                        | Inr base \<Rightarrow>
                            (case grequests_Post w (base @ ''/1.1/do2fa'')
                                    \<lparr>Headers = None,
                                     JSON = Some (AnyMap [''token'' \<mapsto> AnyString token,
                                                          ''code'' \<mapsto> AnyInt code]),
                                     CookieJar = Some jar,
                                     UseCookieJar = False,
                                     UserAgent = ''''\<rparr> s2 of
                               (Inl err, s3) \<Rightarrow> (Failed err, s3)
                             | (Inr resp2, s3) \<Rightarrow>
                                 if \<not> Ok resp2 then
                                   (if isJSON resp2
                                    then (Failed (NewErrorFromResponse w resp2), s3)
                                    else (Failed (HTTPError (StatusCode resp2) ''POST'' ''/do2fa''), s3))
                                 else
                                   (case Jar_Save w jar s3 of
                                      (Some err, s4) \<Rightarrow> (Failed err, s4)
                                    | (None, s4) \<Rightarrow> (Returned resp2, s4))))))))"

text \<open>The \<open>switch\<close> of \<open>doRequest\<close> on the method; \<open>None\<close> is its \<open>default\<close> branch.\<close>

definition selectFn ::
  "World \<Rightarrow> string \<Rightarrow> (string \<Rightarrow> RequestOptions \<Rightarrow> State \<Rightarrow> (error + Response) \<times> State) option" where
  "selectFn w verb =
     (if verb = ''GET'' then Some (grequests_Get w)
      else if verb = ''POST'' then Some (grequests_Post w)
      else if verb = ''PUT'' then Some (grequests_Put w)
      else if verb = ''DELETE'' then Some (grequests_Delete w)
      else if verb = ''PATCH'' then Some (grequests_Patch w)
      else None)"

definition doRequest ::
  "World \<Rightarrow> Client \<Rightarrow> string \<Rightarrow> string \<Rightarrow> (string \<rightharpoonup> any) option \<Rightarrow> RequestOptions option
     \<Rightarrow> State \<Rightarrow> Response result \<times> State" where
  "doRequest w client verb path params options0 s =
     (case (case options0 of None \<Rightarrow> options w client s | Some ro \<Rightarrow> Returned ro) of
        Panicked p \<Rightarrow> (Panicked p, s)
      | Failed err \<Rightarrow> (Failed err, s)
      | Returned ro0 \<Rightarrow>
          (let ro = (case params of None \<Rightarrow> ro0 | Some ps \<Rightarrow> ro0\<lparr>JSON := Some (AnyMap ps)\<rparr>)
           in case selectFn w verb of
                None \<Rightarrow> (Panicked (PanicString (''invalid method: '' @ verb)), s)
              | Some fn \<Rightarrow>
                  (case GetBaseURL w client of
                     Inl p \<Rightarrow> (Panicked p, s)
                   | Inr base \<Rightarrow>
                       (case fn (base @ path) ro s of
                          (Inl err, s1) \<Rightarrow> (Failed err, s1)
                        | (Inr resp, s1) \<Rightarrow>
                            (case checkAndDo2FA w client resp s1 of
                               (Panicked p, s2) \<Rightarrow> (Panicked p, s2)
                             | (Failed err, s2) \<Rightarrow> (Failed err, s2)
                             | (Returned resp2, s2) \<Rightarrow>
                                 if \<not> Ok resp2 then
                                   (if isJSON resp2
                                    then (Failed (NewErrorFromResponse w resp2), s2)
                                    else (Failed (HTTPError (StatusCode resp2) verb path), s2))
                                 else
                                   (case Jar_Save w (Client.CookieJar client) s2 of
                                      (Some err, s3) \<Rightarrow> (Failed err, s3)
                                    | (None, s3) \<Rightarrow> (Returned resp2, s3)))))))"

text \<open>
  The first part of \<open>doRequest\<close> on its own, up to the answer of the round trip (lines
  119 to 143): the options, the payload, the choice of the verb and the call. The
  theorems name through it the response that \<open>doRequest\<close> receives.
\<close>

definition dispatch ::
  "World \<Rightarrow> Client \<Rightarrow> string \<Rightarrow> string \<Rightarrow> (string \<rightharpoonup> any) option \<Rightarrow> RequestOptions option
     \<Rightarrow> State \<Rightarrow> ((error + Response) \<times> State) result" where
  "dispatch w client verb path params options0 s =
     (case (case options0 of None \<Rightarrow> options w client s | Some ro \<Rightarrow> Returned ro) of
        Panicked p \<Rightarrow> Panicked p
      | Failed err \<Rightarrow> Failed err
      | Returned ro0 \<Rightarrow>
          (let ro = (case params of None \<Rightarrow> ro0 | Some ps \<Rightarrow> ro0\<lparr>JSON := Some (AnyMap ps)\<rparr>)
           in case selectFn w verb of
                None \<Rightarrow> Panicked (PanicString (''invalid method: '' @ verb))
              | Some fn \<Rightarrow>
                  (case GetBaseURL w client of
                     Inl p \<Rightarrow> Panicked p
                   | Inr base \<Rightarrow> Returned (fn (base @ path) ro s))))"

subsection \<open>Reading a trace\<close>

fun isHTTPRequest :: "Event \<Rightarrow> bool" where
  "isHTTPRequest (HTTPRequest verb url ro) = True"
| "isHTTPRequest e = False"

fun isJarSave :: "Event \<Rightarrow> bool" where
  "isJarSave (JarSave jar) = True"
| "isJarSave e = False"

text \<open>The jar that a request carries in its options.\<close>

fun requestJar :: "Event \<Rightarrow> Jar option" where
  "requestJar (HTTPRequest verb url ro) = RequestOptions.CookieJar ro"
| "requestJar e = None"

text \<open>The events a call added: those of the state after it that the state before lacks.\<close>

definition since :: "State \<Rightarrow> State \<Rightarrow> Event list" where
  "since s s' = drop (length (trace s)) (trace s')"

text \<open>The file name of the jar that the two-factor exchange opens.\<close>

definition exchangeFilename :: "World \<Rightarrow> string" where
  "exchangeFilename w = Join w [ConfigDir w, ''leancloud'', ''cookies'']"

text \<open>The options of the POST of the two-factor exchange (lines 193 to 199).\<close>

definition exchangeOptions :: "string \<Rightarrow> int \<Rightarrow> Jar \<Rightarrow> RequestOptions" where
  "exchangeOptions token code jar =
     \<lparr>Headers = None,
      JSON = Some (AnyMap [''token'' \<mapsto> AnyString token, ''code'' \<mapsto> AnyInt code]),
      CookieJar = Some jar,
      UseCookieJar = False,
      UserAgent = ''''\<rparr>"

subsection \<open>A world to run the client in\<close>

text \<open>
  A dashboard for the examples: \<open>/login\<close> asks for the second factor, the exchange and
  \<open>/apps\<close> succeed, \<open>/bad\<close> and \<open>/plain\<close> fail with and without a JSON body, and every
  other URL is unreachable. The prompt answers 123456.
\<close>

fun joinSlash :: "string list \<Rightarrow> string" where
  "joinSlash [] = ''''"
| "joinSlash [x] = x"
| "joinSlash (x # y # zs) = x @ ''/'' @ joinSlash (y # zs)"

definition exampleRoundTrip ::
  "Event list \<Rightarrow> string \<Rightarrow> string \<Rightarrow> RequestOptions \<Rightarrow> error + RawResponse" where
  "exampleRoundTrip tr verb url ro =
     (if url = ''https://leancloud.cn/login'' then
        Inr \<lparr>rawStatusCode = 401,
             rawHeader = [''Content-Type'' \<mapsto> [''application/json'']],
             rawBody = ''{\"token\":\"abc\"}''\<rparr>
      else if url = ''https://leancloud.cn/1.1/do2fa'' then
        Inr \<lparr>rawStatusCode = 200, rawHeader = Map.empty, rawBody = ''{}''\<rparr>
      else if url = ''https://leancloud.cn/apps'' then
        Inr \<lparr>rawStatusCode = 200, rawHeader = Map.empty, rawBody = ''[]''\<rparr>
      else if url = ''https://leancloud.cn/bad'' then
        Inr \<lparr>rawStatusCode = 400,
             rawHeader = [''Content-Type'' \<mapsto> ['' application/json; charset=utf-8'']],
             rawBody = ''{\"code\":1,\"error\":\"bad request\"}''\<rparr>
      else if url = ''https://leancloud.cn/plain'' then
        Inr \<lparr>rawStatusCode = 500,
             rawHeader = [''Content-Type'' \<mapsto> [''text/plain'']],
             rawBody = ''down''\<rparr>
      else Inl (ErrorString ''connection refused''))"

definition exampleWorld :: World where
  "exampleWorld =
     \<lparr>Getenv = (\<lambda>name. ''''),
      GetAppRegion = (\<lambda>appID. if appID = ''app-us'' then Inr US
                                else Inl (ErrorString ''unknown app'')),
      ConfigDir = ''/home/u/.config'',
      Version = ''0.1.0'',
      Join = joinSlash,
      Parse = Inr,
      roundTrip = exampleRoundTrip,
      Get2FACode = (\<lambda>tr. defaultGet2FACode ''123456''),
      jarLoad = (\<lambda>tr filename. None),
      jarSave = (\<lambda>tr jar. None),
      jarCookies = (\<lambda>tr jar u. [\<lparr>Name = ''uluru_user'', Value = ''u1''\<rparr>,
                                   \<lparr>Name = ''XSRF-TOKEN'', Value = ''x1''\<rparr>,
                                   \<lparr>Name = ''XSRF-TOKEN'', Value = ''x2''\<rparr>]),
      decodeToken = (\<lambda>b. if b = ''{\"token\":\"abc\"}'' then Inr ''abc''
                           else Inl (ErrorString ''invalid character'')),
      decodeError = (\<lambda>b. if b = ''{\"code\":1,\"error\":\"bad request\"}''
                           then (1, ''bad request'') else (0, ''''))\<rparr>"

definition exampleClient :: Client where
  "exampleClient =
     \<lparr>CookieJar = \<lparr>jar_id = 0, Filename = ''/home/u/.config/leancloud/cookies''\<rparr>,
      Region = CN,
      AppID = ''''\<rparr>"

definition exampleState :: State where
  "exampleState = \<lparr>trace = [], nextJar = 1\<rparr>"

text \<open>
  The run of the examples: the client of region CN asks for \<open>/login\<close> with the default
  options, and the answer is the challenge.
\<close>

definition exampleOptions :: RequestOptions where
  "exampleOptions =
     \<lparr>Headers = Some [''X-XSRF-TOKEN'' \<mapsto> ''x1''],
      JSON = None,
      CookieJar = Some \<lparr>jar_id = 0, Filename = ''/home/u/.config/leancloud/cookies''\<rparr>,
      UseCookieJar = True,
      UserAgent = ''LeanCloud-CLI/0.1.0''\<rparr>"

definition loginResponse :: Response where
  "loginResponse =
     \<lparr>Ok = False,
      StatusCode = 401,
      Header = [''Content-Type'' \<mapsto> [''application/json'']],
      body = ''{\"token\":\"abc\"}''\<rparr>"

definition afterLogin :: State where
  "afterLogin =
     \<lparr>trace = [HTTPRequest ''GET'' ''https://leancloud.cn/login'' exampleOptions],
      nextJar = 1\<rparr>"

definition exchangeJar :: Jar where
  "exchangeJar = \<lparr>jar_id = 1, Filename = ''/home/u/.config/leancloud/cookies''\<rparr>"

definition exchangeResponse :: Response where
  "exchangeResponse = \<lparr>Ok = True, StatusCode = 200, Header = Map.empty, body = ''{}''\<rparr>"

text \<open>The same world with a cookie file that cannot be read, and with a disk that is full.\<close>

definition brokenCookieFile :: World where
  "brokenCookieFile =
     exampleWorld\<lparr>jarLoad := (\<lambda>tr filename. Some (ErrorString ''cannot load cookies''))\<rparr>"

definition fullDisk :: World where
  "fullDisk =
     exampleWorld\<lparr>jarSave := (\<lambda>tr jar. Some (ErrorString ''no space left on device''))\<rparr>"

text \<open>The state of that run when the challenge handler has returned.\<close>

definition afterExchange :: State where
  "afterExchange =
     \<lparr>trace = [HTTPRequest ''GET'' ''https://leancloud.cn/login'' exampleOptions,
               Get2FACodeCall,
               JarNew ''/home/u/.config/leancloud/cookies'',
               HTTPRequest ''POST'' ''https://leancloud.cn/1.1/do2fa''
                 (exchangeOptions ''abc'' 123456 exchangeJar),
               JarSave exchangeJar],
      nextJar = 2\<rparr>"

text \<open>
  The same world with a prompt that answers \<open>12a\<close>, and with a client's jar that holds
  no cookie.
\<close>

definition badPrompt :: World where
  "badPrompt = exampleWorld\<lparr>Get2FACode := (\<lambda>tr. defaultGet2FACode ''12a'')\<rparr>"

definition noCookies :: World where
  "noCookies = exampleWorld\<lparr>jarCookies := (\<lambda>tr jar u. [])\<rparr>"

text \<open>A world with the environment, the files and the dashboard of the example.\<close>

definition sameDashboard :: "World \<Rightarrow> bool" where
  "sameDashboard w =
     (Getenv w = Getenv exampleWorld \<and> ConfigDir w = ConfigDir exampleWorld
      \<and> Version w = Version exampleWorld \<and> Join w = Join exampleWorld
      \<and> Parse w = Parse exampleWorld \<and> roundTrip w = roundTrip exampleWorld
      \<and> decodeToken w = decodeToken exampleWorld)"

text \<open>
  The same world with an exchange that answers \<open>raw\<close>: for the runs where the exchange
  itself fails.
\<close>

definition exchangeAnswers :: "RawResponse \<Rightarrow> World" where
  "exchangeAnswers raw =
     exampleWorld
       \<lparr>roundTrip := (\<lambda>tr verb url ro.
          if url = ''https://leancloud.cn/1.1/do2fa'' then Inr raw
          else exampleRoundTrip tr verb url ro)\<rparr>"

definition plainFailure :: RawResponse where
  "plainFailure =
     \<lparr>rawStatusCode = 500,
      rawHeader = [''Content-Type'' \<mapsto> [''text/plain'']],
      rawBody = ''down''\<rparr>"

definition jsonFailure :: RawResponse where
  "jsonFailure =
     \<lparr>rawStatusCode = 403,
      rawHeader = [''Content-Type'' \<mapsto> [''application/json'']],
      rawBody = ''{\"code\":1,\"error\":\"bad request\"}''\<rparr>"

text \<open>Whether a message mentions a word: the word is a contiguous part of it.\<close>

fun mentions :: "string \<Rightarrow> string \<Rightarrow> bool" where
  "mentions [] word = (word = [])"
| "mentions (c # cs) word = (take (length word) (c # cs) = word \<or> mentions cs word)"

section \<open>Facts about the pipeline\<close>

lemma dom_dashboardBaseUrls: "dom dashboardBaseUrls = {CN, US, TAB}"
  by (auto simp: dashboardBaseUrls_def split: if_splits)

lemma NewClientByRegion_fields:
  "NewClientByRegion w region s = (Inr client, s') \<Longrightarrow>
     Region client = region \<and> AppID client = ''''"
  by (auto simp: NewClientByRegion_def split: prod.splits sum.splits)

lemma NewClientByRegion_jar:
  "NewClientByRegion w region s0 = (Inr client, s0') \<Longrightarrow>
     Filename (Client.CookieJar client) = Join w [Join w [ConfigDir w, ''leancloud''], ''cookies'']"
  by (auto simp: NewClientByRegion_def newCookieJar_def cookiejar_New_def emit_def Let_def
      split: prod.splits sum.splits option.splits)

lemma xsrfOf_find:
  "xsrfOf cookies =
     (case find (\<lambda>c. Name c = ''XSRF-TOKEN'') cookies of None \<Rightarrow> '''' | Some c \<Rightarrow> Value c)"
  by (induction cookies) simp_all

lemma selectFn_Some: "selectFn w verb = Some fn \<Longrightarrow> fn = DoRegularRequest w verb"
  by (auto simp: selectFn_def grequests_Get_def grequests_Post_def grequests_Put_def
      grequests_Delete_def grequests_Patch_def split: if_splits)

text \<open>What \<open>dispatch\<close> returns is the answer of one round trip under the base URL.\<close>

lemma dispatch_Returned:
  assumes "dispatch w client verb path params opts s = Returned (x, s1)"
  shows "\<exists>base ro. GetBaseURL w client = Inr base
           \<and> DoRegularRequest w verb (base @ path) ro s = (x, s1)"
  using assms
  by (auto simp: dispatch_def Let_def dest!: selectFn_Some
      split: result.splits option.splits sum.splits)

lemma dispatch_state:
  assumes "dispatch w client verb path params opts s = Returned (x, s1)"
  shows "nextJar s1 = nextJar s \<and> (\<exists>e. isHTTPRequest e \<and> trace s1 = trace s @ [e])"
  using dispatch_Returned [OF assms]
  by (auto simp: DoRegularRequest_def emit_def)

lemma dispatch_response:
  assumes "dispatch w client verb path params opts s = Returned (Inr r, s1)"
  shows "Ok r = (200 \<le> StatusCode r \<and> StatusCode r < 300)"
proof -
  obtain base ro where "DoRegularRequest w verb (base @ path) ro s = (Inr r, s1)"
    using dispatch_Returned [OF assms] by blast
  then obtain raw where "r = buildResponse raw"
    by (auto simp: DoRegularRequest_def split: sum.splits)
  then show ?thesis by (simp add: buildResponse_def)
qed

text \<open>\<open>doRequest\<close> is \<open>dispatch\<close> followed by the rest of its body.\<close>

lemma doRequest_transport:
  assumes "dispatch w client verb path params opts s = Returned (Inl err, s1)"
  shows "doRequest w client verb path params opts s = (Failed err, s1)"
  using assms
  by (auto simp: dispatch_def doRequest_def Let_def
      split: result.splits option.splits sum.splits)

lemma doRequest_received:
  assumes "dispatch w client verb path params opts s = Returned (Inr r, s1)"
  shows "doRequest w client verb path params opts s =
     (case checkAndDo2FA w client r s1 of
        (Panicked p, s2) \<Rightarrow> (Panicked p, s2)
      | (Failed err, s2) \<Rightarrow> (Failed err, s2)
      | (Returned resp2, s2) \<Rightarrow>
          if \<not> Ok resp2 then
            (if isJSON resp2
             then (Failed (NewErrorFromResponse w resp2), s2)
             else (Failed (HTTPError (StatusCode resp2) verb path), s2))
          else
            (case Jar_Save w (Client.CookieJar client) s2 of
               (Some err, s3) \<Rightarrow> (Failed err, s3)
             | (None, s3) \<Rightarrow> (Returned resp2, s3)))"
  using assms
  by (auto simp: dispatch_def doRequest_def Let_def
      split: result.splits option.splits sum.splits)

lemma doRequest_Returned_dispatch:
  assumes "doRequest w client verb path params opts s = (Returned resp, s')"
  shows "\<exists>r s1. dispatch w client verb path params opts s = Returned (Inr r, s1)"
  using assms
  by (auto simp: dispatch_def doRequest_def Let_def
      split: result.splits option.splits sum.splits prod.splits)

text \<open>The challenge handler, path by path.\<close>

lemma checkAndDo2FA_pass:
  "StatusCode r \<noteq> 401 \<Longrightarrow> checkAndDo2FA w client r s = (Returned r, s)"
  by (simp add: checkAndDo2FA_def)

lemma checkAndDo2FA_exchange:
  assumes "StatusCode r = 401"
    and "decodeToken w (body r) = Inr token"
    and "Get2FACode w (trace s) = Inr code"
    and "jarLoad w (trace s @ [Get2FACodeCall]) (exchangeFilename w) = None"
    and "GetBaseURL w client = Inr base"
  shows "checkAndDo2FA w client r s =
     (let jar = \<lparr>jar_id = nextJar s, Filename = exchangeFilename w\<rparr>;
          ro = exchangeOptions token code jar;
          url = base @ ''/1.1/do2fa'';
          tr2 = trace s @ [Get2FACodeCall, JarNew (exchangeFilename w)];
          tr3 = tr2 @ [HTTPRequest ''POST'' url ro]
      in case roundTrip w tr2 ''POST'' url ro of
           Inl err \<Rightarrow> (Failed err, s\<lparr>trace := tr3, nextJar := Suc (nextJar s)\<rparr>)
         | Inr raw \<Rightarrow>
             if 200 \<le> rawStatusCode raw \<and> rawStatusCode raw < 300 then
               ((case jarSave w tr3 jar of
                   Some err \<Rightarrow> Failed err
                 | None \<Rightarrow> Returned (buildResponse raw)),
                s\<lparr>trace := tr3 @ [JarSave jar], nextJar := Suc (nextJar s)\<rparr>)
             else
               (Failed (if isJSON (buildResponse raw)
                        then NewErrorFromResponse w (buildResponse raw)
                        else HTTPError (rawStatusCode raw) ''POST'' ''/do2fa''),
                s\<lparr>trace := tr3, nextJar := Suc (nextJar s)\<rparr>))"
  using assms
  by (simp add: checkAndDo2FA_def cookiejar_New_def grequests_Post_def DoRegularRequest_def
      Jar_Save_def emit_def exchangeFilename_def exchangeOptions_def Let_def buildResponse_def
      split: sum.splits option.splits)

lemma checkAndDo2FA_resolved:
  assumes "StatusCode r = 401"
    and "checkAndDo2FA w client r s = (Returned resp, s2)"
    and "GetBaseURL w client = Inr base"
  shows "\<exists>token code.
           Ok resp
           \<and> trace s2 = trace s @
               [Get2FACodeCall, JarNew (exchangeFilename w),
                HTTPRequest ''POST'' (base @ ''/1.1/do2fa'')
                  (exchangeOptions token code \<lparr>jar_id = nextJar s, Filename = exchangeFilename w\<rparr>),
                JarSave \<lparr>jar_id = nextJar s, Filename = exchangeFilename w\<rparr>]"
proof -
  obtain token where t: "decodeToken w (body r) = Inr token"
    using assms(1,2) by (auto simp: checkAndDo2FA_def split: sum.splits)
  obtain code where c: "Get2FACode w (trace s) = Inr code"
    using assms(1,2) t by (auto simp: checkAndDo2FA_def split: sum.splits)
  have j: "jarLoad w (trace s @ [Get2FACodeCall]) (exchangeFilename w) = None"
    using assms(1,2) t c
    by (auto simp: checkAndDo2FA_def cookiejar_New_def emit_def exchangeFilename_def
        split: option.splits)
  have "Ok resp
           \<and> trace s2 = trace s @
               [Get2FACodeCall, JarNew (exchangeFilename w),
                HTTPRequest ''POST'' (base @ ''/1.1/do2fa'')
                  (exchangeOptions token code \<lparr>jar_id = nextJar s, Filename = exchangeFilename w\<rparr>),
                JarSave \<lparr>jar_id = nextJar s, Filename = exchangeFilename w\<rparr>]"
    using assms(2)
    by (auto simp: checkAndDo2FA_exchange [OF assms(1) t c j assms(3)] Let_def buildResponse_def
        split: sum.splits if_splits option.splits)
  then show ?thesis by blast
qed

lemma checkAndDo2FA_Returned_status:
  assumes "checkAndDo2FA w client r s = (Returned resp, s2)"
    and "Ok r = (200 \<le> StatusCode r \<and> StatusCode r < 300)"
  shows "Ok resp = (200 \<le> StatusCode resp \<and> StatusCode resp < 300)"
  using assms
  by (auto simp: checkAndDo2FA_def cookiejar_New_def grequests_Post_def DoRegularRequest_def
      Jar_Save_def buildResponse_def
      split: if_splits sum.splits option.splits prod.splits)

lemma checkAndDo2FA_trace:
  assumes "checkAndDo2FA w client r s = (res, s2)"
  shows "\<exists>evs. trace s2 = trace s @ evs \<and> (\<forall>j. JarSave j \<in> set evs \<longrightarrow> jar_id j = nextJar s)"
  using assms
  by (auto simp: checkAndDo2FA_def cookiejar_New_def grequests_Post_def DoRegularRequest_def
      Jar_Save_def emit_def
      split: if_splits sum.splits option.splits prod.splits)

lemma doRequest_trace:
  assumes "dispatch w client verb path params opts s = Returned (x, s1)"
  shows "\<exists>evs. trace (snd (doRequest w client verb path params opts s)) = trace s1 @ evs"
proof (cases x)
  case (Inl err)
  then show ?thesis
    using doRequest_transport assms by simp
next
  case (Inr r)
  obtain res s2 where c: "checkAndDo2FA w client r s1 = (res, s2)"
    by (cases "checkAndDo2FA w client r s1")
  then obtain evs where "trace s2 = trace s1 @ evs"
    using checkAndDo2FA_trace by blast
  then show ?thesis
    using assms Inr
    by (cases res) (auto simp: doRequest_received c Jar_Save_def emit_def split: option.splits)
qed

section \<open>The example run\<close>

lemma sameDashboard_worlds:
  "sameDashboard exampleWorld" "sameDashboard badPrompt" "sameDashboard noCookies"
  "sameDashboard brokenCookieFile" "sameDashboard fullDisk"
  by (simp_all add: sameDashboard_def badPrompt_def noCookies_def brokenCookieFile_def
      fullDisk_def)

lemma example_base:
  "sameDashboard w \<Longrightarrow> GetBaseURL w exampleClient = Inr ''https://leancloud.cn''"
  by (simp add: sameDashboard_def GetBaseURL_def exampleWorld_def exampleClient_def
      dashboardBaseUrls_def)

lemma example_Parse:
  "sameDashboard w \<Longrightarrow> Parse w url = Inr url"
  by (simp add: sameDashboard_def exampleWorld_def)

lemma example_options:
  "sameDashboard w \<Longrightarrow> jarCookies w = jarCookies exampleWorld \<Longrightarrow>
     options w exampleClient s = Returned exampleOptions"
  by (simp add: options_def example_base example_Parse)
    (simp add: sameDashboard_def exampleWorld_def exampleClient_def exampleOptions_def)

lemma example_dispatch:
  assumes "sameDashboard w" and "jarCookies w = jarCookies exampleWorld"
  shows "dispatch w exampleClient ''GET'' path None None exampleState =
     Returned
       ((case exampleRoundTrip [] ''GET'' (''https://leancloud.cn'' @ path) exampleOptions of
           Inl err \<Rightarrow> Inl err
         | Inr raw \<Rightarrow> Inr (buildResponse raw)),
        \<lparr>trace = [HTTPRequest ''GET'' (''https://leancloud.cn'' @ path) exampleOptions],
         nextJar = 1\<rparr>)"
proof -
  have "roundTrip w = exampleRoundTrip"
    using assms(1) by (simp add: sameDashboard_def exampleWorld_def)
  then show ?thesis
    by (simp add: dispatch_def example_options [OF assms] example_base [OF assms(1)]
        selectFn_def grequests_Get_def DoRegularRequest_def emit_def exampleState_def)
qed

lemma example_login_dispatch:
  assumes "sameDashboard w" and "jarCookies w = jarCookies exampleWorld"
  shows "dispatch w exampleClient ''GET'' ''/login'' None None exampleState
           = Returned (Inr loginResponse, afterLogin)"
  by (simp add: example_dispatch [OF assms] exampleRoundTrip_def buildResponse_def
      loginResponse_def afterLogin_def)

lemma example_status: "StatusCode loginResponse = 401"
  by (simp add: loginResponse_def)

lemma example_token:
  "sameDashboard w \<Longrightarrow> decodeToken w (body loginResponse) = Inr ''abc''"
  by (simp add: sameDashboard_def exampleWorld_def loginResponse_def)

lemma example_code: "defaultGet2FACode ''123456'' = Inr 123456"
  by (simp add: defaultGet2FACode_def Atoi_def isDigit_def digitVal_def)

lemma example_bad_code: "defaultGet2FACode ''12a'' = Inl (ErrorString codeNotNumeric)"
  by (simp add: defaultGet2FACode_def Atoi_def isDigit_def digitVal_def)

lemma example_filename:
  "sameDashboard w \<Longrightarrow> exchangeFilename w = ''/home/u/.config/leancloud/cookies''"
  by (simp add: sameDashboard_def exchangeFilename_def exampleWorld_def)

lemma example_exchangeJar:
  "sameDashboard w \<Longrightarrow>
     \<lparr>jar_id = nextJar afterLogin, Filename = exchangeFilename w\<rparr> = exchangeJar"
  by (simp add: example_filename afterLogin_def exchangeJar_def)

lemma example_exchange:
  "sameDashboard w \<Longrightarrow>
     roundTrip w tr ''POST'' ''https://leancloud.cn/1.1/do2fa'' ro
       = Inr \<lparr>rawStatusCode = 200, rawHeader = Map.empty, rawBody = ''{}''\<rparr>"
  by (simp add: sameDashboard_def exampleWorld_def exampleRoundTrip_def)

lemma example_login_handler:
  "checkAndDo2FA exampleWorld exampleClient loginResponse afterLogin
     = (Returned exchangeResponse, afterExchange)"
proof -
  note w = sameDashboard_worlds(1)
  have c: "Get2FACode exampleWorld (trace afterLogin) = Inr 123456"
    by (simp add: exampleWorld_def example_code)
  have j: "jarLoad exampleWorld (trace afterLogin @ [Get2FACodeCall]) (exchangeFilename exampleWorld)
             = None"
    by (simp add: exampleWorld_def)
  have s: "jarSave exampleWorld tr jar = None" for tr jar
    by (simp add: exampleWorld_def)
  show ?thesis
    by (simp add: checkAndDo2FA_exchange [OF example_status example_token [OF w] c j example_base [OF w]]
        Let_def example_exchange [OF w] example_exchangeJar [OF w] example_filename [OF w] s
        buildResponse_def exchangeResponse_def)
      (simp add: afterLogin_def afterExchange_def exchangeJar_def)
qed

lemma example_login_run:
  "doRequest exampleWorld exampleClient ''GET'' ''/login'' None None exampleState =
     (Returned exchangeResponse, emit (JarSave (Client.CookieJar exampleClient)) afterExchange)"
  by (simp add: doRequest_received [OF example_login_dispatch [OF sameDashboard_worlds(1) refl]]
      example_login_handler Jar_Save_def)
    (simp add: exchangeResponse_def exampleWorld_def)

lemma example_NewClientByRegion:
  "NewClientByRegion exampleWorld region \<lparr>trace = [], nextJar = 0\<rparr> =
     (Inr (exampleClient\<lparr>Region := region\<rparr>),
      \<lparr>trace = [MkdirAll ''/home/u/.config/leancloud'',
                JarNew ''/home/u/.config/leancloud/cookies''],
       nextJar = 1\<rparr>)"
  by (simp add: NewClientByRegion_def newCookieJar_def cookiejar_New_def emit_def
      exampleWorld_def exampleClient_def)


text \<open>The run of \<open>/login\<close> where the exchange answers \<open>raw\<close>, up to the POST.\<close>

lemma failing_dispatch:
  "dispatch (exchangeAnswers raw) exampleClient ''GET'' ''/login'' None None exampleState
     = Returned (Inr loginResponse, afterLogin)"
  by (simp add: dispatch_def options_def GetBaseURL_def dashboardBaseUrls_def selectFn_def
      grequests_Get_def DoRegularRequest_def exampleRoundTrip_def buildResponse_def emit_def
      Let_def exchangeAnswers_def exampleWorld_def exampleState_def exampleClient_def
      loginResponse_def afterLogin_def exampleOptions_def)

lemma failing_facts:
  "decodeToken (exchangeAnswers raw) (body loginResponse) = Inr ''abc''"
  "Get2FACode (exchangeAnswers raw) tr = Inr 123456"
  "jarLoad (exchangeAnswers raw) tr filename = None"
  "GetBaseURL (exchangeAnswers raw) exampleClient = Inr ''https://leancloud.cn''"
  "exchangeFilename (exchangeAnswers raw) = ''/home/u/.config/leancloud/cookies''"
  "roundTrip (exchangeAnswers raw) tr ''POST'' ''https://leancloud.cn/1.1/do2fa'' ro = Inr raw"
  "decodeError (exchangeAnswers raw) = decodeError exampleWorld"
  by (simp_all add: exchangeAnswers_def exampleWorld_def loginResponse_def example_code
      GetBaseURL_def dashboardBaseUrls_def exampleClient_def exchangeFilename_def)

lemma failing_run:
  assumes "\<not> (200 \<le> rawStatusCode raw \<and> rawStatusCode raw < 300)"
  shows "fst (doRequest (exchangeAnswers raw) exampleClient ''GET'' ''/login'' None None exampleState)
     = Failed (if isJSON (buildResponse raw)
               then NewErrorFromResponse (exchangeAnswers raw) (buildResponse raw)
               else HTTPError (rawStatusCode raw) ''POST'' ''/do2fa'')"
  by (simp add: doRequest_received [OF failing_dispatch]
      checkAndDo2FA_exchange [OF example_status failing_facts(1,2,3,4)] failing_facts Let_def
      assms)

text \<open>The runs of \<open>/login\<close> with the unreadable cookie file and with the full disk.\<close>

lemma broken_run:
  "dispatch brokenCookieFile exampleClient ''GET'' ''/login'' None None exampleState
     = Returned (Inr loginResponse, afterLogin)"
  "Get2FACode brokenCookieFile tr = Inr 123456"
  "doRequest brokenCookieFile exampleClient ''GET'' ''/login'' None None exampleState
     = (Failed (ErrorString ''cannot load cookies''),
        emit (JarNew ''/home/u/.config/leancloud/cookies'') (emit Get2FACodeCall afterLogin))"
proof -
  note w = sameDashboard_worlds(4)
  show d: "dispatch brokenCookieFile exampleClient ''GET'' ''/login'' None None exampleState
              = Returned (Inr loginResponse, afterLogin)"
    by (rule example_login_dispatch [OF w]) (simp add: brokenCookieFile_def)
  have c: "Get2FACode brokenCookieFile tr' = Inr 123456" for tr'
    by (simp add: brokenCookieFile_def exampleWorld_def example_code)
  show "Get2FACode brokenCookieFile tr = Inr 123456"
    by (rule c)
  have j: "jarLoad brokenCookieFile tr' f = Some (ErrorString ''cannot load cookies'')" for tr' f
    by (simp add: brokenCookieFile_def)
  have f: "Join brokenCookieFile [ConfigDir brokenCookieFile, ''leancloud'', ''cookies'']
             = ''/home/u/.config/leancloud/cookies''"
    using example_filename [OF w] by (simp add: exchangeFilename_def)
  show "doRequest brokenCookieFile exampleClient ''GET'' ''/login'' None None exampleState
     = (Failed (ErrorString ''cannot load cookies''),
        emit (JarNew ''/home/u/.config/leancloud/cookies'') (emit Get2FACodeCall afterLogin))"
    by (simp add: doRequest_received [OF d] checkAndDo2FA_def example_status example_token [OF w]
        c j f cookiejar_New_def)
qed

lemma fullDisk_run:
  "dispatch fullDisk exampleClient ''GET'' ''/login'' None None exampleState
     = Returned (Inr loginResponse, afterLogin)"
  "Get2FACode fullDisk tr = Inr 123456"
  "fst (doRequest fullDisk exampleClient ''GET'' ''/login'' None None exampleState)
     = Failed (ErrorString ''no space left on device'')"
proof -
  note w = sameDashboard_worlds(5)
  show d: "dispatch fullDisk exampleClient ''GET'' ''/login'' None None exampleState
              = Returned (Inr loginResponse, afterLogin)"
    by (rule example_login_dispatch [OF w]) (simp add: fullDisk_def)
  have c: "Get2FACode fullDisk tr' = Inr 123456" for tr'
    by (simp add: fullDisk_def exampleWorld_def example_code)
  show "Get2FACode fullDisk tr = Inr 123456"
    by (rule c)
  have j: "jarLoad fullDisk (trace afterLogin @ [Get2FACodeCall]) (exchangeFilename fullDisk) = None"
    by (simp add: fullDisk_def exampleWorld_def)
  have s: "jarSave fullDisk tr' jar = Some (ErrorString ''no space left on device'')" for tr' jar
    by (simp add: fullDisk_def)
  show "fst (doRequest fullDisk exampleClient ''GET'' ''/login'' None None exampleState)
     = Failed (ErrorString ''no space left on device'')"
    by (simp add: doRequest_received [OF d]
        checkAndDo2FA_exchange [OF example_status example_token [OF w] c j example_base [OF w]]
        Let_def example_exchange [OF w] s)
qed

section \<open>The base URL\<close>

text \<open>
  C6. \<open>GetBaseURL\<close> decides in this order. A non-empty \<open>LEANCLOUD_DASHBOARD\<close> is
  returned, whatever the region and the app ID are. Otherwise a client with an app ID
  has it resolved by \<open>GetAppRegion\<close>, and an error of the resolver is a panic with that
  error. Otherwise, or after the resolution, the region is looked up in
  \<open>dashboardBaseUrls\<close>: a region of the table gives its URL, and any other region is the
  panic \<open>invalid region\<close>, never a URL.
\<close>

theorem GetBaseURL_priority:
  "(Getenv w ''LEANCLOUD_DASHBOARD'' \<noteq> '''' \<longrightarrow>
      GetBaseURL w client = Inr (Getenv w ''LEANCLOUD_DASHBOARD''))
   \<and> (Getenv w ''LEANCLOUD_DASHBOARD'' = '''' \<and> AppID client \<noteq> '''' \<and>
        GetAppRegion w (AppID client) = Inl err \<longrightarrow>
      GetBaseURL w client = Inl (PanicError err))
   \<and> (Getenv w ''LEANCLOUD_DASHBOARD'' = '''' \<and>
        (if AppID client \<noteq> '''' then GetAppRegion w (AppID client) else Inr (Region client))
          = Inr region \<longrightarrow>
      GetBaseURL w client =
        (case dashboardBaseUrls region of
           Some url \<Rightarrow> Inr url
         | None \<Rightarrow> Inl (PanicString ''invalid region'')))
   \<and> (Getenv w ''LEANCLOUD_DASHBOARD'' = '''' \<and> region \<notin> {CN, US, TAB} \<and>
        (if AppID client \<noteq> '''' then GetAppRegion w (AppID client) else Inr (Region client))
          = Inr region \<longrightarrow>
      GetBaseURL w client = Inl (PanicString ''invalid region''))"
proof (intro conjI impI)
  assume "Getenv w ''LEANCLOUD_DASHBOARD'' \<noteq> ''''"
  then show "GetBaseURL w client = Inr (Getenv w ''LEANCLOUD_DASHBOARD'')"
    by (simp add: GetBaseURL_def)
next
  assume "Getenv w ''LEANCLOUD_DASHBOARD'' = '''' \<and> AppID client \<noteq> '''' \<and>
        GetAppRegion w (AppID client) = Inl err"
  then show "GetBaseURL w client = Inl (PanicError err)"
    by (simp add: GetBaseURL_def)
next
  assume "Getenv w ''LEANCLOUD_DASHBOARD'' = '''' \<and>
        (if AppID client \<noteq> '''' then GetAppRegion w (AppID client) else Inr (Region client))
          = Inr region"
  then show "GetBaseURL w client =
        (case dashboardBaseUrls region of
           Some url \<Rightarrow> Inr url
         | None \<Rightarrow> Inl (PanicString ''invalid region''))"
    by (simp add: GetBaseURL_def)
next
  assume a: "Getenv w ''LEANCLOUD_DASHBOARD'' = '''' \<and> region \<notin> {CN, US, TAB} \<and>
        (if AppID client \<noteq> '''' then GetAppRegion w (AppID client) else Inr (Region client))
          = Inr region"
  then have "dashboardBaseUrls region = None"
    using dom_dashboardBaseUrls by blast
  with a show "GetBaseURL w client = Inl (PanicString ''invalid region'')"
    by (simp add: GetBaseURL_def)
qed

text \<open>
  The four cases at work: an override with an app ID that does not resolve, the same
  app ID without the override, an app ID of the US region, and a region outside the
  table.
\<close>

theorem GetBaseURL_priority_witness:
  "GetBaseURL (exampleWorld\<lparr>Getenv := (\<lambda>name. ''http://localhost:3000'')\<rparr>)
       (exampleClient\<lparr>AppID := ''nobody''\<rparr>) = Inr ''http://localhost:3000''
   \<and> GetBaseURL exampleWorld (exampleClient\<lparr>AppID := ''nobody''\<rparr>)
       = Inl (PanicError (ErrorString ''unknown app''))
   \<and> GetBaseURL exampleWorld (exampleClient\<lparr>AppID := ''app-us''\<rparr>) = Inr ''https://us.leancloud.cn''
   \<and> GetBaseURL exampleWorld (exampleClient\<lparr>Region := OtherRegion 7\<rparr>)
       = Inl (PanicString ''invalid region'')"
  using GetBaseURL_priority [of "exampleWorld\<lparr>Getenv := (\<lambda>name. ''http://localhost:3000'')\<rparr>"
          "exampleClient\<lparr>AppID := ''nobody''\<rparr>"]
    GetBaseURL_priority [of exampleWorld "exampleClient\<lparr>AppID := ''nobody''\<rparr>"
          "ErrorString ''unknown app''"]
    GetBaseURL_priority [of exampleWorld "exampleClient\<lparr>AppID := ''app-us''\<rparr>" _ US]
    GetBaseURL_priority [of exampleWorld "exampleClient\<lparr>Region := OtherRegion 7\<rparr>" _ "OtherRegion 7"]
  by (simp add: exampleWorld_def exampleClient_def dashboardBaseUrls_def)

text \<open>
  C7. With no override in the environment, a client that \<open>NewClientByRegion\<close> built
  for a region of the table has the URL of the table as its base URL: the region is
  CN, US or TAB and the URL is \<open>https://leancloud.cn\<close>, \<open>https://us.leancloud.cn\<close> or
  \<open>https://tab.leancloud.cn\<close>.
\<close>

theorem GetBaseURL_table_regions:
  assumes "Getenv w ''LEANCLOUD_DASHBOARD'' = ''''"
    and "NewClientByRegion w region s = (Inr client, s')"
    and "dashboardBaseUrls region = Some url"
  shows "GetBaseURL w client = Inr url
         \<and> region \<in> {CN, US, TAB}
         \<and> url = (if region = CN then ''https://leancloud.cn''
                  else if region = US then ''https://us.leancloud.cn''
                  else ''https://tab.leancloud.cn'')"
proof -
  from assms(2) have f: "Region client = region" "AppID client = ''''"
    using NewClientByRegion_fields by blast+
  have r: "region \<in> {CN, US, TAB}"
    using assms(3) dom_dashboardBaseUrls by blast
  have "GetBaseURL w client = Inr url"
    using assms(1,3) f by (simp add: GetBaseURL_def)
  moreover have "url = (if region = CN then ''https://leancloud.cn''
                  else if region = US then ''https://us.leancloud.cn''
                  else ''https://tab.leancloud.cn'')"
    using assms(3) r by (auto simp: dashboardBaseUrls_def)
  ultimately show ?thesis using r by blast
qed

text \<open>The three clients that \<open>NewClientByRegion\<close> builds in the example world.\<close>

theorem GetBaseURL_table_regions_witness:
  "GetBaseURL exampleWorld (exampleClient\<lparr>Region := CN\<rparr>) = Inr ''https://leancloud.cn''
   \<and> GetBaseURL exampleWorld (exampleClient\<lparr>Region := US\<rparr>) = Inr ''https://us.leancloud.cn''
   \<and> GetBaseURL exampleWorld (exampleClient\<lparr>Region := TAB\<rparr>) = Inr ''https://tab.leancloud.cn''"
proof -
  have env: "Getenv exampleWorld ''LEANCLOUD_DASHBOARD'' = ''''"
    by (simp add: exampleWorld_def)
  have "dashboardBaseUrls CN = Some ''https://leancloud.cn''"
    "dashboardBaseUrls US = Some ''https://us.leancloud.cn''"
    "dashboardBaseUrls TAB = Some ''https://tab.leancloud.cn''"
    by (simp_all add: dashboardBaseUrls_def)
  then show ?thesis
    using GetBaseURL_table_regions [OF env example_NewClientByRegion] by blast
qed

section \<open>The default options\<close>

text \<open>
  C8. \<open>options\<close> never returns an error. Where the base URL resolves and parses, it
  returns the header \<open>X-XSRF-TOKEN\<close> with the value of the first cookie named
  \<open>XSRF-TOKEN\<close> among the jar's cookies for that URL, or with the empty string when
  there is none, together with the client's jar and the user agent
  \<open>LeanCloud-CLI/\<close> followed by the version; and \<open>doRequest\<close> without options sends
  its request with exactly these options and the payload.
\<close>

theorem default_options:
  "options w client s \<noteq> Failed err
   \<and> (GetBaseURL w client = Inr base \<and> Parse w base = Inr u \<longrightarrow>
        options w client s =
          Returned
            \<lparr>Headers = Some [''X-XSRF-TOKEN'' \<mapsto>
               (case find (\<lambda>c. Name c = ''XSRF-TOKEN'')
                       (jarCookies w (trace s) (Client.CookieJar client) u) of
                  None \<Rightarrow> ''''
                | Some c \<Rightarrow> Value c)],
             JSON = None,
             CookieJar = Some (Client.CookieJar client),
             UseCookieJar = True,
             UserAgent = ''LeanCloud-CLI/'' @ Version w\<rparr>
        \<and> (selectFn w verb \<noteq> None \<longrightarrow>
             hd (since s (snd (doRequest w client verb path params None s))) =
               HTTPRequest verb (base @ path)
                 \<lparr>Headers = Some [''X-XSRF-TOKEN'' \<mapsto>
                    (case find (\<lambda>c. Name c = ''XSRF-TOKEN'')
                            (jarCookies w (trace s) (Client.CookieJar client) u) of
                       None \<Rightarrow> ''''
                     | Some c \<Rightarrow> Value c)],
                  JSON = map_option AnyMap params,
                  CookieJar = Some (Client.CookieJar client),
                  UseCookieJar = True,
                  UserAgent = ''LeanCloud-CLI/'' @ Version w\<rparr>))"
proof -
  have nofail: "options w client s \<noteq> Failed err"
    by (simp add: options_def split: sum.splits)
  let ?ro = "\<lparr>Headers = Some [''X-XSRF-TOKEN'' \<mapsto>
               (case find (\<lambda>c. Name c = ''XSRF-TOKEN'')
                       (jarCookies w (trace s) (Client.CookieJar client) u) of
                  None \<Rightarrow> ''''
                | Some c \<Rightarrow> Value c)],
             JSON = None,
             CookieJar = Some (Client.CookieJar client),
             UseCookieJar = True,
             UserAgent = ''LeanCloud-CLI/'' @ Version w\<rparr>"
  let ?sent = "?ro\<lparr>JSON := map_option AnyMap params\<rparr>"
  have "GetBaseURL w client = Inr base \<and> Parse w base = Inr u \<longrightarrow>
        options w client s = Returned ?ro
        \<and> (selectFn w verb \<noteq> None \<longrightarrow>
             hd (since s (snd (doRequest w client verb path params None s))) =
               HTTPRequest verb (base @ path) ?sent)"
  proof (rule impI)
    assume a: "GetBaseURL w client = Inr base \<and> Parse w base = Inr u"
    then have o: "options w client s = Returned ?ro"
      by (simp add: options_def xsrfOf_find)
    have "hd (since s (snd (doRequest w client verb path params None s))) =
               HTTPRequest verb (base @ path) ?sent"
      if "selectFn w verb \<noteq> None"
    proof -
      from that obtain fn where fn: "selectFn w verb = Some fn" by blast
      then have f: "fn = DoRegularRequest w verb" by (rule selectFn_Some)
      have d: "dispatch w client verb path params None s
           = Returned (DoRegularRequest w verb (base @ path) ?sent s)"
        using a fn f by (cases params) (simp_all add: dispatch_def o)
      obtain x s1 where x: "DoRegularRequest w verb (base @ path) ?sent s = (x, s1)"
        by (cases "DoRegularRequest w verb (base @ path) ?sent s")
      then have s1: "trace s1 = trace s @ [HTTPRequest verb (base @ path) ?sent]"
        by (auto simp: DoRegularRequest_def emit_def)
      obtain evs where "trace (snd (doRequest w client verb path params None s)) = trace s1 @ evs"
        using doRequest_trace d x by metis
      then show ?thesis
        by (simp add: since_def s1)
    qed
    with o show "options w client s = Returned ?ro
        \<and> (selectFn w verb \<noteq> None \<longrightarrow>
             hd (since s (snd (doRequest w client verb path params None s))) =
               HTTPRequest verb (base @ path) ?sent)"
      by blast
  qed
  with nofail show ?thesis by simp
qed

text \<open>
  A jar with two cookies named \<open>XSRF-TOKEN\<close> gives the first, and the request for
  \<open>/apps\<close> carries it; a jar without cookies gives the empty string.
\<close>

theorem default_options_witness:
  "options exampleWorld exampleClient exampleState = Returned exampleOptions
   \<and> hd (since exampleState
        (snd (doRequest exampleWorld exampleClient ''GET'' ''/apps'' None None exampleState)))
       = HTTPRequest ''GET'' ''https://leancloud.cn/apps'' exampleOptions
   \<and> options noCookies exampleClient exampleState
       = Returned
           \<lparr>Headers = Some [''X-XSRF-TOKEN'' \<mapsto> ''''],
            JSON = None,
            CookieJar = Some (Client.CookieJar exampleClient),
            UseCookieJar = True,
            UserAgent = ''LeanCloud-CLI/0.1.0''\<rparr>"
proof -
  have b: "GetBaseURL w exampleClient = Inr ''https://leancloud.cn''
            \<and> Parse w ''https://leancloud.cn'' = Inr ''https://leancloud.cn''"
    if "sameDashboard w" for w
    using that by (simp add: example_base example_Parse)
  have g: "selectFn exampleWorld ''GET'' \<noteq> None"
    by (simp add: selectFn_def)
  show ?thesis
    using default_options [of exampleWorld exampleClient exampleState _ "''https://leancloud.cn''"
        "''https://leancloud.cn''" "''GET''" "''/apps''" None,
        THEN conjunct2, rule_format, OF b [OF sameDashboard_worlds(1)]]
      default_options [of noCookies exampleClient exampleState _ "''https://leancloud.cn''"
        "''https://leancloud.cn''" "''GET''" "''/apps''" None,
        THEN conjunct2, rule_format, OF b [OF sameDashboard_worlds(3)]] g
    by (simp add: exampleWorld_def noCookies_def exampleClient_def exampleOptions_def)
qed

section \<open>What the caller gets\<close>

text \<open>
  C3, as amended. A response that \<open>doRequest\<close> returns has a status from 200 to 299, so
  it never has status 401. When the response received has status 401, what
  \<open>doRequest\<close> returns is decided in this order: the error of parsing the challenge
  body; the error of \<open>Get2FACode\<close>; the error of opening the jar of the exchange; the
  transport error of the POST of the exchange; for an answer of the exchange outside
  200 to 299, the error of its classification; the error of saving the jar of the
  exchange; the error of saving the client's jar; and, when none of these arises, the
  response that the POST of the exchange received.
\<close>

theorem no_bare_401:
  "(doRequest w client verb path params opts s = (Returned resp, s') \<longrightarrow>
      StatusCode resp \<noteq> 401 \<and> 200 \<le> StatusCode resp \<and> StatusCode resp < 300)
   \<and> (dispatch w client verb path params opts s = Returned (Inr r, s1) \<and> StatusCode r = 401
        \<and> GetBaseURL w client = Inr base \<longrightarrow>
        fst (doRequest w client verb path params opts s) =
          (case decodeToken w (body r) of
             Inl err \<Rightarrow> Failed err
           | Inr token \<Rightarrow>
               (case Get2FACode w (trace s1) of
                  Inl err \<Rightarrow> Failed err
                | Inr code \<Rightarrow>
                    (case jarLoad w (trace s1 @ [Get2FACodeCall]) (exchangeFilename w) of
                       Some err \<Rightarrow> Failed err
                     | None \<Rightarrow>
                         (let fresh = \<lparr>jar_id = nextJar s1, Filename = exchangeFilename w\<rparr>;
                              ro = exchangeOptions token code fresh;
                              url = base @ ''/1.1/do2fa'';
                              tr2 = trace s1 @ [Get2FACodeCall, JarNew (exchangeFilename w)];
                              tr3 = tr2 @ [HTTPRequest ''POST'' url ro]
                          in case roundTrip w tr2 ''POST'' url ro of
                               Inl err \<Rightarrow> Failed err
                             | Inr raw \<Rightarrow>
                                 if \<not> (200 \<le> rawStatusCode raw \<and> rawStatusCode raw < 300) then
                                   Failed (if isJSON (buildResponse raw)
                                           then NewErrorFromResponse w (buildResponse raw)
                                           else HTTPError (rawStatusCode raw) ''POST'' ''/do2fa'')
                                 else
                                   (case jarSave w tr3 fresh of
                                      Some err \<Rightarrow> Failed err
                                    | None \<Rightarrow>
                                        (case jarSave w (tr3 @ [JarSave fresh])
                                                (Client.CookieJar client) of
                                           Some err \<Rightarrow> Failed err
                                         | None \<Rightarrow> Returned (buildResponse raw))))))))"
proof (rule conjI; rule impI)
  assume a: "doRequest w client verb path params opts s = (Returned resp, s')"
  then obtain r s1 where d: "dispatch w client verb path params opts s = Returned (Inr r, s1)"
    using doRequest_Returned_dispatch by blast
  obtain res s2 where c: "checkAndDo2FA w client r s1 = (res, s2)"
    by (cases "checkAndDo2FA w client r s1")
  from a have "res = Returned resp \<and> Ok resp"
    by (auto simp: doRequest_received [OF d] c Jar_Save_def
        split: result.splits if_splits option.splits)
  then have "200 \<le> StatusCode resp \<and> StatusCode resp < 300"
    using checkAndDo2FA_Returned_status [OF _ dispatch_response [OF d]] c by blast
  then show "StatusCode resp \<noteq> 401 \<and> 200 \<le> StatusCode resp \<and> StatusCode resp < 300"
    by simp
next
  assume a: "dispatch w client verb path params opts s = Returned (Inr r, s1) \<and> StatusCode r = 401
        \<and> GetBaseURL w client = Inr base"
  then have d: "dispatch w client verb path params opts s = Returned (Inr r, s1)"
    and st: "StatusCode r = 401" and b: "GetBaseURL w client = Inr base" by simp_all
  let ?req = "doRequest w client verb path params opts s"
  show "fst ?req =
          (case decodeToken w (body r) of
             Inl err \<Rightarrow> Failed err
           | Inr token \<Rightarrow>
               (case Get2FACode w (trace s1) of
                  Inl err \<Rightarrow> Failed err
                | Inr code \<Rightarrow>
                    (case jarLoad w (trace s1 @ [Get2FACodeCall]) (exchangeFilename w) of
                       Some err \<Rightarrow> Failed err
                     | None \<Rightarrow>
                         (let fresh = \<lparr>jar_id = nextJar s1, Filename = exchangeFilename w\<rparr>;
                              ro = exchangeOptions token code fresh;
                              url = base @ ''/1.1/do2fa'';
                              tr2 = trace s1 @ [Get2FACodeCall, JarNew (exchangeFilename w)];
                              tr3 = tr2 @ [HTTPRequest ''POST'' url ro]
                          in case roundTrip w tr2 ''POST'' url ro of
                               Inl err \<Rightarrow> Failed err
                             | Inr raw \<Rightarrow>
                                 if \<not> (200 \<le> rawStatusCode raw \<and> rawStatusCode raw < 300) then
                                   Failed (if isJSON (buildResponse raw)
                                           then NewErrorFromResponse w (buildResponse raw)
                                           else HTTPError (rawStatusCode raw) ''POST'' ''/do2fa'')
                                 else
                                   (case jarSave w tr3 fresh of
                                      Some err \<Rightarrow> Failed err
                                    | None \<Rightarrow>
                                        (case jarSave w (tr3 @ [JarSave fresh])
                                                (Client.CookieJar client) of
                                           Some err \<Rightarrow> Failed err
                                         | None \<Rightarrow> Returned (buildResponse raw)))))))"
  proof (cases "decodeToken w (body r)")
    case (Inl err)
    then show ?thesis
      using st by (simp add: doRequest_received [OF d] checkAndDo2FA_def)
  next
    case token: (Inr token)
    show ?thesis
    proof (cases "Get2FACode w (trace s1)")
      case (Inl err)
      then show ?thesis
        using st token by (simp add: doRequest_received [OF d] checkAndDo2FA_def)
    next
      case code: (Inr code)
      show ?thesis
      proof (cases "jarLoad w (trace s1 @ [Get2FACodeCall]) (exchangeFilename w)")
        case (Some err)
        then show ?thesis
          using st token code
          by (simp add: doRequest_received [OF d] checkAndDo2FA_def cookiejar_New_def
              emit_def exchangeFilename_def)
      next
        case None
        show ?thesis
          using token code None
          by (simp add: doRequest_received [OF d] checkAndDo2FA_exchange [OF st token code None b]
              Let_def Jar_Save_def emit_def buildResponse_def split: sum.splits option.splits)
      qed
    qed
  qed
qed

text \<open>The run of \<open>/login\<close> returns the answer of the exchange, with status 200.\<close>

theorem no_bare_401_witness:
  "fst (doRequest exampleWorld exampleClient ''GET'' ''/login'' None None exampleState)
     = Returned exchangeResponse
   \<and> StatusCode exchangeResponse \<noteq> 401
   \<and> 200 \<le> StatusCode exchangeResponse \<and> StatusCode exchangeResponse < 300"
proof -
  note w = sameDashboard_worlds(1)
  have h: "dispatch exampleWorld exampleClient ''GET'' ''/login'' None None exampleState
        = Returned (Inr loginResponse, afterLogin)
      \<and> StatusCode loginResponse = 401
      \<and> GetBaseURL exampleWorld exampleClient = Inr ''https://leancloud.cn''"
    using example_login_dispatch [OF w refl] example_status example_base [OF w] by simp
  have c: "Get2FACode exampleWorld tr = Inr 123456" for tr
    by (simp add: exampleWorld_def example_code)
  have j: "jarLoad exampleWorld tr f = None" for tr f
    by (simp add: exampleWorld_def)
  have s: "jarSave exampleWorld tr jar = None" for tr jar
    by (simp add: exampleWorld_def)
  show ?thesis
    using no_bare_401 [THEN conjunct1, rule_format, OF example_login_run]
      no_bare_401 [THEN conjunct2, rule_format, OF h]
    by (simp add: example_token [OF w] c j s example_exchange [OF w] Let_def buildResponse_def
        exchangeResponse_def)
qed

text \<open>
  C3 as it is stated fails on its list of where the error comes from. With the
  unreadable cookie file the challenge parses, the prompt gives a code and nothing is
  sent after the 401, so there is no exchange to fail or to classify: the error is
  that of opening the jar. With the full disk the exchange is answered with status
  200: the error is that of saving the jar.
\<close>

theorem no_bare_401_counterexample:
  "dispatch brokenCookieFile exampleClient ''GET'' ''/login'' None None exampleState
     = Returned (Inr loginResponse, afterLogin)
   \<and> StatusCode loginResponse = 401
   \<and> decodeToken brokenCookieFile (body loginResponse) = Inr ''abc''
   \<and> Get2FACode brokenCookieFile (trace afterLogin) = Inr 123456
   \<and> filter isHTTPRequest
       (since afterLogin
          (snd (doRequest brokenCookieFile exampleClient ''GET'' ''/login'' None None exampleState)))
       = []
   \<and> fst (doRequest brokenCookieFile exampleClient ''GET'' ''/login'' None None exampleState)
       = Failed (ErrorString ''cannot load cookies'')
   \<and> dispatch fullDisk exampleClient ''GET'' ''/login'' None None exampleState
       = Returned (Inr loginResponse, afterLogin)
   \<and> decodeToken fullDisk (body loginResponse) = Inr ''abc''
   \<and> Get2FACode fullDisk (trace afterLogin) = Inr 123456
   \<and> roundTrip fullDisk (trace afterLogin @ [Get2FACodeCall, JarNew ''/home/u/.config/leancloud/cookies''])
        ''POST'' ''https://leancloud.cn/1.1/do2fa'' (exchangeOptions ''abc'' 123456 exchangeJar)
       = Inr \<lparr>rawStatusCode = 200, rawHeader = Map.empty, rawBody = ''{}''\<rparr>
   \<and> fst (doRequest fullDisk exampleClient ''GET'' ''/login'' None None exampleState)
       = Failed (ErrorString ''no space left on device'')"
  by (simp add: broken_run fullDisk_run example_status example_token [OF sameDashboard_worlds(4)]
      example_token [OF sameDashboard_worlds(5)] example_exchange [OF sameDashboard_worlds(5)]
      since_def emit_def)

text \<open>
  C4. The client's jar was made before the call. If the challenge handler hands a
  response with a status from 200 to 299 to the classification (the response received
  when it is no 401, the response of the exchange otherwise), then \<open>doRequest\<close> ends
  with a \<open>Save\<close> of the client's jar, this is the only \<open>Save\<close> of that jar during the
  call, and \<open>doRequest\<close> returns the error of \<open>Save\<close> if it has one and the response
  otherwise. If the round trip returns a transport error, \<open>doRequest\<close> returns it and
  the client's jar is not saved.
\<close>

theorem client_jar_saved_once:
  assumes "dispatch w client verb path params opts s = Returned (x, s1)"
    and "jar_id (Client.CookieJar client) < nextJar s"
  shows "(x = Inr r \<and> checkAndDo2FA w client r s1 = (Returned resp, s2)
          \<and> 200 \<le> StatusCode resp \<and> StatusCode resp < 300 \<longrightarrow>
            snd (doRequest w client verb path params opts s)
              = emit (JarSave (Client.CookieJar client)) s2
            \<and> length (filter (\<lambda>e. e = JarSave (Client.CookieJar client))
                 (since s (snd (doRequest w client verb path params opts s)))) = 1
            \<and> fst (doRequest w client verb path params opts s)
                = (case jarSave w (trace s2) (Client.CookieJar client) of
                     Some err \<Rightarrow> Failed err
                   | None \<Rightarrow> Returned resp))
       \<and> (x = Inl err \<longrightarrow>
            doRequest w client verb path params opts s = (Failed err, s1)
            \<and> JarSave (Client.CookieJar client) \<notin> set (since s s1))"
proof (rule conjI; rule impI)
  let ?jar = "Client.CookieJar client"
  assume a: "x = Inr r \<and> checkAndDo2FA w client r s1 = (Returned resp, s2)
          \<and> 200 \<le> StatusCode resp \<and> StatusCode resp < 300"
  then have d: "dispatch w client verb path params opts s = Returned (Inr r, s1)"
    and c: "checkAndDo2FA w client r s1 = (Returned resp, s2)"
    using assms(1) by simp_all
  have ok: "Ok resp"
    using checkAndDo2FA_Returned_status [OF c dispatch_response [OF d]] a by simp
  have run: "doRequest w client verb path params opts s =
      ((case jarSave w (trace s2) ?jar of Some err \<Rightarrow> Failed err | None \<Rightarrow> Returned resp),
       emit (JarSave ?jar) s2)"
    using ok by (simp add: doRequest_received [OF d] c Jar_Save_def split: option.splits)
  obtain e where e: "isHTTPRequest e" "trace s1 = trace s @ [e]" and n: "nextJar s1 = nextJar s"
    using dispatch_state [OF assms(1)] by blast
  obtain evs where evs: "trace s2 = trace s1 @ evs"
    and sv: "\<forall>j. JarSave j \<in> set evs \<longrightarrow> jar_id j = nextJar s1"
    using checkAndDo2FA_trace [OF c] by blast
  have "JarSave ?jar \<notin> set evs"
    using sv n assms(2) by auto
  then have f: "filter (\<lambda>e. e = JarSave ?jar) evs = []"
    by (auto simp: filter_empty_conv)
  have "e \<noteq> JarSave ?jar"
    using e(1) by auto
  then have "length (filter (\<lambda>e. e = JarSave ?jar) (since s (emit (JarSave ?jar) s2))) = 1"
    using e(2) evs f by (simp add: since_def emit_def)
  then show "snd (doRequest w client verb path params opts s) = emit (JarSave ?jar) s2
            \<and> length (filter (\<lambda>e. e = JarSave ?jar)
                 (since s (snd (doRequest w client verb path params opts s)))) = 1
            \<and> fst (doRequest w client verb path params opts s)
                = (case jarSave w (trace s2) ?jar of
                     Some err \<Rightarrow> Failed err
                   | None \<Rightarrow> Returned resp)"
    by (simp add: run)
next
  assume a: "x = Inl err"
  then have d: "dispatch w client verb path params opts s = Returned (Inl err, s1)"
    using assms(1) by simp
  obtain e where e: "isHTTPRequest e" "trace s1 = trace s @ [e]"
    using dispatch_state [OF assms(1)] by blast
  then have "JarSave (Client.CookieJar client) \<notin> set (since s s1)"
    by (auto simp: since_def)
  then show "doRequest w client verb path params opts s = (Failed err, s1)
            \<and> JarSave (Client.CookieJar client) \<notin> set (since s s1)"
    by (simp add: doRequest_transport [OF d])
qed

text \<open>
  The run of \<open>/login\<close> saves the client's jar once, after the jar of the exchange; an
  unreachable URL saves nothing.
\<close>

theorem client_jar_saved_once_witness:
  "snd (doRequest exampleWorld exampleClient ''GET'' ''/login'' None None exampleState)
     = emit (JarSave (Client.CookieJar exampleClient)) afterExchange
   \<and> length (filter (\<lambda>e. e = JarSave (Client.CookieJar exampleClient))
        (since exampleState
          (snd (doRequest exampleWorld exampleClient ''GET'' ''/login'' None None exampleState)))) = 1
   \<and> fst (doRequest exampleWorld exampleClient ''GET'' ''/login'' None None exampleState)
       = Returned exchangeResponse
   \<and> doRequest exampleWorld exampleClient ''GET'' ''/nowhere'' None None exampleState
       = (Failed (ErrorString ''connection refused''),
          \<lparr>trace = [HTTPRequest ''GET'' ''https://leancloud.cn/nowhere'' exampleOptions],
           nextJar = 1\<rparr>)
   \<and> JarSave (Client.CookieJar exampleClient)
       \<notin> set (since exampleState
            \<lparr>trace = [HTTPRequest ''GET'' ''https://leancloud.cn/nowhere'' exampleOptions],
             nextJar = 1\<rparr>)"
proof -
  note w = sameDashboard_worlds(1)
  have a: "jar_id (Client.CookieJar exampleClient) < nextJar exampleState"
    by (simp add: exampleClient_def exampleState_def)
  have d: "dispatch exampleWorld exampleClient ''GET'' ''/nowhere'' None None exampleState
     = Returned (Inl (ErrorString ''connection refused''),
          \<lparr>trace = [HTTPRequest ''GET'' ''https://leancloud.cn/nowhere'' exampleOptions],
           nextJar = 1\<rparr>)"
    by (simp add: example_dispatch [OF w refl] exampleRoundTrip_def)
  have s: "jarSave exampleWorld tr jar = None" for tr jar
    by (simp add: exampleWorld_def)
  have h: "Inr loginResponse = Inr loginResponse
      \<and> checkAndDo2FA exampleWorld exampleClient loginResponse afterLogin
           = (Returned exchangeResponse, afterExchange)
      \<and> 200 \<le> StatusCode exchangeResponse \<and> StatusCode exchangeResponse < 300"
    using example_login_handler by (simp add: exchangeResponse_def)
  show ?thesis
    using client_jar_saved_once [OF example_login_dispatch [OF w refl] a,
        THEN conjunct1, rule_format, OF h]
      client_jar_saved_once [OF d a, THEN conjunct2, rule_format, OF refl]
    by (auto simp: s)
qed

text \<open>
  C5, as amended. When the response received is no 401 and its status is outside 200
  to 299, \<open>doRequest\<close> returns an error and does nothing else: the structured error
  decoded from the body, with its code and message, if the \<open>Content-Type\<close> header
  without the white space around it starts with \<open>application/json\<close>, and otherwise the
  error whose message is \<open>HTTP Error:\<close> followed by the status, the method and the
  path of the request. When the response received is a 401 and the answer of the
  exchange has a status outside 200 to 299, the same test on the \<open>Content-Type\<close> of
  that answer decides: the structured error decoded from its body, or otherwise an
  error whose message begins with \<open>HTTP Error:\<close>, the status of that answer and the
  method \<open>POST\<close> of the exchange.
\<close>

theorem failure_classified:
  assumes "dispatch w client verb path params opts s = Returned (Inr r, s1)"
  shows "(StatusCode r \<noteq> 401 \<and> \<not> (200 \<le> StatusCode r \<and> StatusCode r < 300) \<longrightarrow>
            doRequest w client verb path params opts s =
              (Failed
                 (if HasPrefix (TrimSpace (Header_Get (Header r) ''Content-Type'')) ''application/json''
                  then StructuredError (fst (decodeError w (body r))) (snd (decodeError w (body r)))
                  else ErrorString
                         (''HTTP Error: '' @ Itoa (StatusCode r) @ '', '' @ verb @ '' '' @ path)),
               s1))
       \<and> (StatusCode r = 401
          \<and> decodeToken w (body r) = Inr token
          \<and> Get2FACode w (trace s1) = Inr code
          \<and> jarLoad w (trace s1 @ [Get2FACodeCall]) (exchangeFilename w) = None
          \<and> GetBaseURL w client = Inr base
          \<and> roundTrip w (trace s1 @ [Get2FACodeCall, JarNew (exchangeFilename w)]) ''POST''
               (base @ ''/1.1/do2fa'')
               (exchangeOptions token code \<lparr>jar_id = nextJar s1, Filename = exchangeFilename w\<rparr>)
             = Inr raw
          \<and> \<not> (200 \<le> rawStatusCode raw \<and> rawStatusCode raw < 300) \<longrightarrow>
            (if HasPrefix (TrimSpace (Header_Get (rawHeader raw) ''Content-Type'')) ''application/json''
             then fst (doRequest w client verb path params opts s) =
                    Failed (StructuredError (fst (decodeError w (rawBody raw)))
                                            (snd (decodeError w (rawBody raw))))
             else \<exists>rest. fst (doRequest w client verb path params opts s) =
                    Failed (ErrorString
                      (''HTTP Error: '' @ Itoa (rawStatusCode raw) @ '', POST '' @ rest))))"
proof (rule conjI; rule impI)
  assume a: "StatusCode r \<noteq> 401 \<and> \<not> (200 \<le> StatusCode r \<and> StatusCode r < 300)"
  then have "\<not> Ok r"
    using dispatch_response [OF assms] by simp
  then show "doRequest w client verb path params opts s =
              (Failed
                 (if HasPrefix (TrimSpace (Header_Get (Header r) ''Content-Type'')) ''application/json''
                  then StructuredError (fst (decodeError w (body r))) (snd (decodeError w (body r)))
                  else ErrorString
                         (''HTTP Error: '' @ Itoa (StatusCode r) @ '', '' @ verb @ '' '' @ path)),
               s1)"
    using a
    by (simp add: doRequest_received [OF assms] checkAndDo2FA_pass isJSON_def
        NewErrorFromResponse_def HTTPError_def split: prod.splits)
next
  let ?req = "doRequest w client verb path params opts s"
  let ?fresh = "\<lparr>jar_id = nextJar s1, Filename = exchangeFilename w\<rparr>"
  assume a: "StatusCode r = 401
          \<and> decodeToken w (body r) = Inr token
          \<and> Get2FACode w (trace s1) = Inr code
          \<and> jarLoad w (trace s1 @ [Get2FACodeCall]) (exchangeFilename w) = None
          \<and> GetBaseURL w client = Inr base
          \<and> roundTrip w (trace s1 @ [Get2FACodeCall, JarNew (exchangeFilename w)]) ''POST''
               (base @ ''/1.1/do2fa'') (exchangeOptions token code ?fresh)
             = Inr raw
          \<and> \<not> (200 \<le> rawStatusCode raw \<and> rawStatusCode raw < 300)"
  then have st: "StatusCode r = 401" and t: "decodeToken w (body r) = Inr token"
    and c: "Get2FACode w (trace s1) = Inr code"
    and j: "jarLoad w (trace s1 @ [Get2FACodeCall]) (exchangeFilename w) = None"
    and b: "GetBaseURL w client = Inr base"
    and x: "roundTrip w (trace s1 @ [Get2FACodeCall, JarNew (exchangeFilename w)]) ''POST''
               (base @ ''/1.1/do2fa'') (exchangeOptions token code ?fresh) = Inr raw"
    and n: "\<not> (200 \<le> rawStatusCode raw \<and> rawStatusCode raw < 300)"
    by blast+
  have run: "fst ?req =
      Failed (if isJSON (buildResponse raw)
              then NewErrorFromResponse w (buildResponse raw)
              else HTTPError (rawStatusCode raw) ''POST'' ''/do2fa'')"
    by (simp add: doRequest_received [OF assms] checkAndDo2FA_exchange [OF st t c j b] Let_def
        x n)
  show "if HasPrefix (TrimSpace (Header_Get (rawHeader raw) ''Content-Type'')) ''application/json''
        then fst ?req =
               Failed (StructuredError (fst (decodeError w (rawBody raw)))
                                       (snd (decodeError w (rawBody raw))))
        else \<exists>rest. fst ?req =
               Failed (ErrorString
                 (''HTTP Error: '' @ Itoa (rawStatusCode raw) @ '', POST '' @ rest))"
    by (simp add: run isJSON_def buildResponse_def NewErrorFromResponse_def HTTPError_def
        split: prod.splits)
qed

text \<open>
  A status 400 with a JSON body and a status 500 with plain text, received for the
  request itself; then a status 403 with a JSON body and a status 500 with plain
  text, received for the exchange.
\<close>

theorem failure_classified_witness:
  "doRequest exampleWorld exampleClient ''GET'' ''/bad'' None None exampleState =
     (Failed (StructuredError 1 ''bad request''),
      \<lparr>trace = [HTTPRequest ''GET'' ''https://leancloud.cn/bad'' exampleOptions], nextJar = 1\<rparr>)
   \<and> doRequest exampleWorld exampleClient ''GET'' ''/plain'' None None exampleState =
     (Failed (ErrorString ''HTTP Error: 500, GET /plain''),
      \<lparr>trace = [HTTPRequest ''GET'' ''https://leancloud.cn/plain'' exampleOptions], nextJar = 1\<rparr>)
   \<and> fst (doRequest (exchangeAnswers jsonFailure) exampleClient ''GET'' ''/login'' None None
            exampleState)
       = Failed (StructuredError 1 ''bad request'')
   \<and> (\<exists>rest. fst (doRequest (exchangeAnswers plainFailure) exampleClient ''GET'' ''/login'' None None
                   exampleState)
               = Failed (ErrorString (''HTTP Error: 500, POST '' @ rest)))"
proof -
  note w = sameDashboard_worlds(1)
  let ?bad = "\<lparr>Ok = False, StatusCode = 400,
      Header = [''Content-Type'' \<mapsto> ['' application/json; charset=utf-8'']],
      body = ''{\"code\":1,\"error\":\"bad request\"}''\<rparr>"
  let ?plain = "\<lparr>Ok = False, StatusCode = 500,
      Header = [''Content-Type'' \<mapsto> [''text/plain'']], body = ''down''\<rparr>"
  have d1: "dispatch exampleWorld exampleClient ''GET'' ''/bad'' None None exampleState
     = Returned (Inr ?bad,
          \<lparr>trace = [HTTPRequest ''GET'' ''https://leancloud.cn/bad'' exampleOptions], nextJar = 1\<rparr>)"
    by (simp add: example_dispatch [OF w refl] exampleRoundTrip_def buildResponse_def)
  have d2: "dispatch exampleWorld exampleClient ''GET'' ''/plain'' None None exampleState
     = Returned (Inr ?plain,
          \<lparr>trace = [HTTPRequest ''GET'' ''https://leancloud.cn/plain'' exampleOptions], nextJar = 1\<rparr>)"
    by (simp add: example_dispatch [OF w refl] exampleRoundTrip_def buildResponse_def)
  have t1: "TrimSpace '' application/json; charset=utf-8'' = ''application/json; charset=utf-8''"
    by (simp add: TrimSpace_def spaces_def)
  have t2: "TrimSpace ''text/plain'' = ''text/plain''"
    by (simp add: TrimSpace_def spaces_def)
  have t3: "TrimSpace ''application/json'' = ''application/json''"
    by (simp add: TrimSpace_def spaces_def)
  have i: "Itoa 500 = ''500''"
    by (simp add: Itoa_def digitsOf.simps)
  have e: "decodeError exampleWorld ''{\"code\":1,\"error\":\"bad request\"}'' = (1, ''bad request'')"
    by (simp add: exampleWorld_def)
  have h: "StatusCode loginResponse = 401
      \<and> decodeToken (exchangeAnswers raw) (body loginResponse) = Inr ''abc''
      \<and> Get2FACode (exchangeAnswers raw) (trace afterLogin) = Inr 123456
      \<and> jarLoad (exchangeAnswers raw) (trace afterLogin @ [Get2FACodeCall])
           (exchangeFilename (exchangeAnswers raw)) = None
      \<and> GetBaseURL (exchangeAnswers raw) exampleClient = Inr ''https://leancloud.cn''
      \<and> roundTrip (exchangeAnswers raw)
           (trace afterLogin @ [Get2FACodeCall, JarNew (exchangeFilename (exchangeAnswers raw))])
           ''POST'' (''https://leancloud.cn'' @ ''/1.1/do2fa'')
           (exchangeOptions ''abc'' 123456
              \<lparr>jar_id = nextJar afterLogin, Filename = exchangeFilename (exchangeAnswers raw)\<rparr>)
          = Inr raw
      \<and> \<not> (200 \<le> rawStatusCode raw \<and> rawStatusCode raw < 300)"
    if "\<not> (200 \<le> rawStatusCode raw \<and> rawStatusCode raw < 300)" for raw
    using that by (simp add: example_status failing_facts)
  have h1: "\<not> (200 \<le> rawStatusCode jsonFailure \<and> rawStatusCode jsonFailure < 300)"
    and h2: "\<not> (200 \<le> rawStatusCode plainFailure \<and> rawStatusCode plainFailure < 300)"
    by (simp_all add: jsonFailure_def plainFailure_def)
  show ?thesis
    using failure_classified [OF d1, THEN conjunct1] failure_classified [OF d2, THEN conjunct1]
      failure_classified [OF failing_dispatch, THEN conjunct2, rule_format, OF h [OF h1]]
      failure_classified [OF failing_dispatch, THEN conjunct2, rule_format, OF h [OF h2]]
    by (simp add: Header_Get_def HasPrefix_def t1 t2 t3 i e failing_facts jsonFailure_def
        plainFailure_def)
qed

text \<open>
  C5 as it is stated fails for the answer of the exchange. The request is
  \<open>GET /login\<close>, it is answered by the challenge, and the POST to \<open>/1.1/do2fa\<close> is
  answered with status 500 and plain text. The error that \<open>doRequest\<close> returns names
  the status, but neither the method nor the path of the request.
\<close>

theorem failure_classified_counterexample:
  "dispatch (exchangeAnswers plainFailure) exampleClient ''GET'' ''/login'' None None exampleState
     = Returned (Inr loginResponse, afterLogin)
   \<and> roundTrip (exchangeAnswers plainFailure)
        (trace afterLogin @ [Get2FACodeCall, JarNew ''/home/u/.config/leancloud/cookies''])
        ''POST'' ''https://leancloud.cn/1.1/do2fa'' (exchangeOptions ''abc'' 123456 exchangeJar)
       = Inr plainFailure
   \<and> rawStatusCode plainFailure = 500
   \<and> \<not> HasPrefix (TrimSpace (Header_Get (rawHeader plainFailure) ''Content-Type''))
          ''application/json''
   \<and> fst (doRequest (exchangeAnswers plainFailure) exampleClient ''GET'' ''/login'' None None
            exampleState)
       = Failed (ErrorString ''HTTP Error: 500, POST /do2fa'')
   \<and> \<not> mentions ''HTTP Error: 500, POST /do2fa'' ''GET''
   \<and> \<not> mentions ''HTTP Error: 500, POST /do2fa'' ''/login''
   \<and> \<not> mentions ''HTTP Error: 500, POST /do2fa'' ''/1.1/do2fa''"
proof -
  have t: "TrimSpace ''text/plain'' = ''text/plain''"
    by (simp add: TrimSpace_def spaces_def)
  have i: "Itoa 500 = ''500''"
    by (simp add: Itoa_def digitsOf.simps)
  have n: "\<not> (200 \<le> rawStatusCode plainFailure \<and> rawStatusCode plainFailure < 300)"
    by (simp add: plainFailure_def)
  have j: "\<not> isJSON (buildResponse plainFailure)"
    by (simp add: isJSON_def buildResponse_def plainFailure_def Header_Get_def HasPrefix_def t)
  have r: "fst (doRequest (exchangeAnswers plainFailure) exampleClient ''GET'' ''/login'' None None
            exampleState)
       = Failed (ErrorString ''HTTP Error: 500, POST /do2fa'')"
    by (simp add: failing_run [OF n] j HTTPError_def i) (simp add: plainFailure_def i)
  have m: "\<not> mentions ''HTTP Error: 500, POST /do2fa'' ''GET''"
    "\<not> mentions ''HTTP Error: 500, POST /do2fa'' ''/login''"
    "\<not> mentions ''HTTP Error: 500, POST /do2fa'' ''/1.1/do2fa''"
    by simp_all
  show ?thesis
    using j by (simp add: failing_dispatch failing_facts r m isJSON_def buildResponse_def)
      (simp add: plainFailure_def)
qed

section \<open>The two-factor exchange\<close>

text \<open>
  C1, as amended. \<open>doRequest\<close> has received a response with status 401 whose body
  gives the token. If \<open>Get2FACode\<close> returns a code and the jar of the exchange can be
  opened on its file, then all the network traffic after the 401 is one POST to
  \<open>/1.1/do2fa\<close> under the base URL, with the token and the code as its JSON body. If
  \<open>Get2FACode\<close> returns an error, \<open>doRequest\<close> returns that error and there is no
  network traffic after the 401.
\<close>

theorem challenge_one_POST:
  assumes "dispatch w client verb path params opts s = Returned (Inr r, s1)"
    and "StatusCode r = 401"
    and "decodeToken w (body r) = Inr token"
    and "GetBaseURL w client = Inr base"
  shows "(Get2FACode w (trace s1) = Inr code \<and>
          jarLoad w (trace s1 @ [Get2FACodeCall]) (exchangeFilename w) = None \<longrightarrow>
            filter isHTTPRequest (since s1 (snd (doRequest w client verb path params opts s)))
              = [HTTPRequest ''POST'' (base @ ''/1.1/do2fa'')
                   \<lparr>Headers = None,
                    JSON = Some (AnyMap [''token'' \<mapsto> AnyString token, ''code'' \<mapsto> AnyInt code]),
                    CookieJar = Some \<lparr>jar_id = nextJar s1, Filename = exchangeFilename w\<rparr>,
                    UseCookieJar = False,
                    UserAgent = ''''\<rparr>])
       \<and> (Get2FACode w (trace s1) = Inl err \<longrightarrow>
            fst (doRequest w client verb path params opts s) = Failed err
            \<and> filter isHTTPRequest (since s1 (snd (doRequest w client verb path params opts s))) = [])"
proof (rule conjI; rule impI)
  assume a: "Get2FACode w (trace s1) = Inr code \<and>
          jarLoad w (trace s1 @ [Get2FACodeCall]) (exchangeFilename w) = None"
  show "filter isHTTPRequest (since s1 (snd (doRequest w client verb path params opts s)))
              = [HTTPRequest ''POST'' (base @ ''/1.1/do2fa'')
                   \<lparr>Headers = None,
                    JSON = Some (AnyMap [''token'' \<mapsto> AnyString token, ''code'' \<mapsto> AnyInt code]),
                    CookieJar = Some \<lparr>jar_id = nextJar s1, Filename = exchangeFilename w\<rparr>,
                    UseCookieJar = False,
                    UserAgent = ''''\<rparr>]"
    using a
    by (simp add: doRequest_received [OF assms(1)]
        checkAndDo2FA_exchange [OF assms(2,3) _ _ assms(4)] Let_def Jar_Save_def emit_def
        since_def exchangeOptions_def split: sum.splits option.splits)
next
  assume a: "Get2FACode w (trace s1) = Inl err"
  have c: "checkAndDo2FA w client r s1 = (Failed err, emit Get2FACodeCall s1)"
    using a assms(2,3) by (simp add: checkAndDo2FA_def)
  show "fst (doRequest w client verb path params opts s) = Failed err
      \<and> filter isHTTPRequest (since s1 (snd (doRequest w client verb path params opts s))) = []"
    by (simp add: doRequest_received [OF assms(1)] c emit_def since_def)
qed

text \<open>
  The prompt answers 123456 and the POST carries it; the prompt answers \<open>12a\<close>, which
  \<open>Atoi\<close> rejects, and nothing is sent.
\<close>

theorem challenge_one_POST_witness:
  "filter isHTTPRequest
     (since afterLogin (snd (doRequest exampleWorld exampleClient ''GET'' ''/login'' None None exampleState)))
     = [HTTPRequest ''POST'' ''https://leancloud.cn/1.1/do2fa''
          \<lparr>Headers = None,
           JSON = Some (AnyMap [''token'' \<mapsto> AnyString ''abc'', ''code'' \<mapsto> AnyInt 123456]),
           CookieJar = Some exchangeJar,
           UseCookieJar = False,
           UserAgent = ''''\<rparr>]
   \<and> fst (doRequest badPrompt exampleClient ''GET'' ''/login'' None None exampleState)
       = Failed (ErrorString codeNotNumeric)
   \<and> filter isHTTPRequest
       (since afterLogin (snd (doRequest badPrompt exampleClient ''GET'' ''/login'' None None exampleState)))
       = []"
proof -
  note w1 = sameDashboard_worlds(1) and w2 = sameDashboard_worlds(2)
  have c1: "Get2FACode exampleWorld (trace afterLogin) = Inr 123456
      \<and> jarLoad exampleWorld (trace afterLogin @ [Get2FACodeCall]) (exchangeFilename exampleWorld) = None"
    by (simp add: exampleWorld_def example_code)
  have c2: "Get2FACode badPrompt (trace afterLogin) = Inl (ErrorString codeNotNumeric)"
    by (simp add: badPrompt_def example_bad_code)
  have d2: "dispatch badPrompt exampleClient ''GET'' ''/login'' None None exampleState
              = Returned (Inr loginResponse, afterLogin)"
    by (rule example_login_dispatch [OF w2]) (simp add: badPrompt_def)
  show ?thesis
    using challenge_one_POST [OF example_login_dispatch [OF w1 refl] example_status
          example_token [OF w1] example_base [OF w1], THEN conjunct1, rule_format, OF c1]
      challenge_one_POST [OF d2 example_status example_token [OF w2] example_base [OF w2],
          THEN conjunct2, rule_format, OF c2]
    by (simp add: example_exchangeJar [OF w1])
qed

text \<open>
  C1 as it is stated fails where \<open>cookiejar.New\<close> fails: the challenge has a token and
  the prompt a code, yet the handler returns the error of the jar and sends no POST.
\<close>

theorem challenge_POST_counterexample:
  "dispatch brokenCookieFile exampleClient ''GET'' ''/login'' None None exampleState
     = Returned (Inr loginResponse, afterLogin)
   \<and> StatusCode loginResponse = 401
   \<and> decodeToken brokenCookieFile (body loginResponse) = Inr ''abc''
   \<and> Get2FACode brokenCookieFile (trace afterLogin) = Inr 123456
   \<and> doRequest brokenCookieFile exampleClient ''GET'' ''/login'' None None exampleState
       = (Failed (ErrorString ''cannot load cookies''),
          \<lparr>trace = [HTTPRequest ''GET'' ''https://leancloud.cn/login'' exampleOptions,
                    Get2FACodeCall,
                    JarNew ''/home/u/.config/leancloud/cookies''],
           nextJar = 1\<rparr>)
   \<and> filter isHTTPRequest
       (since afterLogin
          (snd (doRequest brokenCookieFile exampleClient ''GET'' ''/login'' None None exampleState)))
       = []"
proof -
  note w = sameDashboard_worlds(4)
  have d: "dispatch brokenCookieFile exampleClient ''GET'' ''/login'' None None exampleState
              = Returned (Inr loginResponse, afterLogin)"
    by (rule example_login_dispatch [OF w]) (simp add: brokenCookieFile_def)
  have c: "Get2FACode brokenCookieFile (trace afterLogin) = Inr 123456"
    by (simp add: brokenCookieFile_def exampleWorld_def example_code)
  have j: "jarLoad brokenCookieFile tr f = Some (ErrorString ''cannot load cookies'')" for tr f
    by (simp add: brokenCookieFile_def)
  have f: "Join brokenCookieFile [ConfigDir brokenCookieFile, ''leancloud'', ''cookies'']
             = ''/home/u/.config/leancloud/cookies''"
    using example_filename [OF w] by (simp add: exchangeFilename_def)
  have h: "checkAndDo2FA brokenCookieFile exampleClient loginResponse afterLogin
      = (Failed (ErrorString ''cannot load cookies''),
          \<lparr>trace = [HTTPRequest ''GET'' ''https://leancloud.cn/login'' exampleOptions,
                    Get2FACodeCall,
                    JarNew ''/home/u/.config/leancloud/cookies''],
           nextJar = 1\<rparr>)"
    by (simp add: checkAndDo2FA_def example_status example_token [OF w] c j f cookiejar_New_def
        emit_def)
      (simp add: afterLogin_def)
  show ?thesis
    by (simp add: d example_status example_token [OF w] c doRequest_received [OF d] h since_def)
      (simp add: afterLogin_def)
qed

text \<open>
  C2, as amended. \<open>doRequest\<close> has received a 401, the challenge has given a token, the
  prompt a code, the jar of the exchange has been opened, and the answer to the POST
  has a status from 200 to 299. Then the handler calls \<open>Save\<close> on the jar of the
  exchange, once and right after the POST. If \<open>Save\<close> succeeds the handler returns the
  response of the exchange in place of the 401; if it fails the handler returns the
  error of \<open>Save\<close>. Either way the POST is the only network traffic after the 401: the
  original request is not sent again.
\<close>

theorem exchange_success:
  assumes "dispatch w client verb path params opts s = Returned (Inr r, s1)"
    and "StatusCode r = 401"
    and "decodeToken w (body r) = Inr token"
    and "Get2FACode w (trace s1) = Inr code"
    and "jarLoad w (trace s1 @ [Get2FACodeCall]) (exchangeFilename w) = None"
    and "GetBaseURL w client = Inr base"
    and "jar = \<lparr>jar_id = nextJar s1, Filename = exchangeFilename w\<rparr>"
    and "post = HTTPRequest ''POST'' (base @ ''/1.1/do2fa'') (exchangeOptions token code jar)"
    and "roundTrip w (trace s1 @ [Get2FACodeCall, JarNew (exchangeFilename w)]) ''POST''
           (base @ ''/1.1/do2fa'') (exchangeOptions token code jar) = Inr raw"
    and "200 \<le> rawStatusCode raw \<and> rawStatusCode raw < 300"
  shows "checkAndDo2FA w client r s1 =
           ((case jarSave w (trace s1 @ [Get2FACodeCall, JarNew (exchangeFilename w), post]) jar of
               Some err \<Rightarrow> Failed err
             | None \<Rightarrow> Returned (buildResponse raw)),
            s1\<lparr>trace := trace s1 @ [Get2FACodeCall, JarNew (exchangeFilename w), post, JarSave jar],
               nextJar := Suc (nextJar s1)\<rparr>)
         \<and> filter isHTTPRequest (since s1 (snd (doRequest w client verb path params opts s)))
             = [post]"
proof -
  have c: "checkAndDo2FA w client r s1 =
           ((case jarSave w (trace s1 @ [Get2FACodeCall, JarNew (exchangeFilename w), post]) jar of
               Some err \<Rightarrow> Failed err
             | None \<Rightarrow> Returned (buildResponse raw)),
            s1\<lparr>trace := trace s1 @ [Get2FACodeCall, JarNew (exchangeFilename w), post, JarSave jar],
               nextJar := Suc (nextJar s1)\<rparr>)"
    using assms(7-10)
    by (simp add: checkAndDo2FA_exchange [OF assms(2-6)] Let_def)
  have "filter isHTTPRequest (since s1 (snd (doRequest w client verb path params opts s))) = [post]"
    using assms(8)
    by (simp add: doRequest_received [OF assms(1)] c Jar_Save_def emit_def since_def
        split: option.splits)
  with c show ?thesis by blast
qed

text \<open>The run of \<open>/login\<close>: the handler returns the answer of the exchange.\<close>

theorem exchange_success_witness:
  "checkAndDo2FA exampleWorld exampleClient loginResponse afterLogin =
     (Returned exchangeResponse, afterExchange)
   \<and> filter isHTTPRequest
       (since afterLogin (snd (doRequest exampleWorld exampleClient ''GET'' ''/login'' None None exampleState)))
       = [HTTPRequest ''POST'' ''https://leancloud.cn/1.1/do2fa''
            (exchangeOptions ''abc'' 123456 exchangeJar)]"
proof -
  note w = sameDashboard_worlds(1)
  have c: "Get2FACode exampleWorld (trace afterLogin) = Inr 123456"
    by (simp add: exampleWorld_def example_code)
  have j: "jarLoad exampleWorld (trace afterLogin @ [Get2FACodeCall]) (exchangeFilename exampleWorld)
             = None"
    by (simp add: exampleWorld_def)
  have x: "roundTrip exampleWorld
             (trace afterLogin @ [Get2FACodeCall, JarNew (exchangeFilename exampleWorld)])
             ''POST'' (''https://leancloud.cn'' @ ''/1.1/do2fa'')
             (exchangeOptions ''abc'' 123456 exchangeJar)
           = Inr \<lparr>rawStatusCode = 200, rawHeader = Map.empty, rawBody = ''{}''\<rparr>"
    by (simp add: example_exchange [OF w])
  have s: "jarSave exampleWorld tr jar = None" for tr jar
    by (simp add: exampleWorld_def)
  show ?thesis
    using exchange_success [OF example_login_dispatch [OF w refl] example_status
        example_token [OF w] c j example_base [OF w] example_exchangeJar [OF w, symmetric] refl x]
    by (simp add: s example_filename [OF w] buildResponse_def exchangeResponse_def
        afterLogin_def afterExchange_def exchangeJar_def)
qed

text \<open>
  C2 as it is stated fails where the disk is full: the answer of the exchange has
  status 200, yet the handler returns the error of \<open>Save\<close> and not that response.
\<close>

theorem exchange_success_counterexample:
  "dispatch fullDisk exampleClient ''GET'' ''/login'' None None exampleState
     = Returned (Inr loginResponse, afterLogin)
   \<and> StatusCode loginResponse = 401
   \<and> roundTrip fullDisk
        [HTTPRequest ''GET'' ''https://leancloud.cn/login'' exampleOptions,
         Get2FACodeCall,
         JarNew ''/home/u/.config/leancloud/cookies'']
        ''POST'' ''https://leancloud.cn/1.1/do2fa'' (exchangeOptions ''abc'' 123456 exchangeJar)
       = Inr \<lparr>rawStatusCode = 200, rawHeader = Map.empty, rawBody = ''{}''\<rparr>
   \<and> checkAndDo2FA fullDisk exampleClient loginResponse afterLogin
       = (Failed (ErrorString ''no space left on device''), afterExchange)
   \<and> fst (doRequest fullDisk exampleClient ''GET'' ''/login'' None None exampleState)
       = Failed (ErrorString ''no space left on device'')"
proof -
  note w = sameDashboard_worlds(5)
  have d: "dispatch fullDisk exampleClient ''GET'' ''/login'' None None exampleState
              = Returned (Inr loginResponse, afterLogin)"
    by (rule example_login_dispatch [OF w]) (simp add: fullDisk_def)
  have c: "Get2FACode fullDisk (trace afterLogin) = Inr 123456"
    by (simp add: fullDisk_def exampleWorld_def example_code)
  have j: "jarLoad fullDisk (trace afterLogin @ [Get2FACodeCall]) (exchangeFilename fullDisk) = None"
    by (simp add: fullDisk_def exampleWorld_def)
  have s: "jarSave fullDisk tr jar = Some (ErrorString ''no space left on device'')" for tr jar
    by (simp add: fullDisk_def)
  have h: "checkAndDo2FA fullDisk exampleClient loginResponse afterLogin
       = (Failed (ErrorString ''no space left on device''), afterExchange)"
    by (simp add: checkAndDo2FA_exchange [OF example_status example_token [OF w] c j example_base [OF w]]
        Let_def example_exchange [OF w] example_exchangeJar [OF w] example_filename [OF w] s)
      (simp add: afterLogin_def afterExchange_def exchangeJar_def)
  show ?thesis
    by (simp add: d example_status example_exchange [OF w] h doRequest_received [OF d])
qed

text \<open>
  C9. \<open>doRequest\<close> has received a 401 and the challenge handler has resolved it: the
  handler has returned a response, which is the answer of the exchange and has a
  status from 200 to 299. The client's jar was made before the call. Then the call
  saves two jars and no other: first the new jar of the exchange, in the handler, and
  then the client's jar, at the end of \<open>doRequest\<close>. The two jars are different
  objects, and the POST, the only request after the 401, carries the new one. The new
  jar is on the file \<open>cookies\<close> in \<open>leancloud\<close> in the configuration directory; for a
  client built by \<open>NewClientByRegion\<close> the client's jar is on the same file, given that
  \<open>filepath.Join\<close> joins the three elements as it joins the first two and then the
  third.
\<close>

theorem exchange_saves_two_jars:
  assumes "dispatch w client verb path params opts s = Returned (Inr r, s1)"
    and "StatusCode r = 401"
    and "checkAndDo2FA w client r s1 = (Returned resp, s2)"
    and "jar_id (Client.CookieJar client) < nextJar s"
    and "fresh = \<lparr>jar_id = nextJar s1, Filename = exchangeFilename w\<rparr>"
  shows "200 \<le> StatusCode resp \<and> StatusCode resp < 300
         \<and> filter isJarSave (since s (snd (doRequest w client verb path params opts s)))
             = [JarSave fresh, JarSave (Client.CookieJar client)]
         \<and> fresh \<noteq> Client.CookieJar client
         \<and> map requestJar
             (filter isHTTPRequest (since s1 (snd (doRequest w client verb path params opts s))))
             = [Some fresh]
         \<and> Filename fresh = Join w [ConfigDir w, ''leancloud'', ''cookies'']
         \<and> (NewClientByRegion w region s0 = (Inr client, s0') \<and>
              Join w [Join w [ConfigDir w, ''leancloud''], ''cookies'']
                = Join w [ConfigDir w, ''leancloud'', ''cookies''] \<longrightarrow>
              Filename (Client.CookieJar client) = Filename fresh)"
proof -
  let ?final = "snd (doRequest w client verb path params opts s)"
  obtain e where e: "isHTTPRequest e" "trace s1 = trace s @ [e]" and n: "nextJar s1 = nextJar s"
    using dispatch_state [OF assms(1)] by blast
  obtain base where b: "GetBaseURL w client = Inr base"
    using dispatch_Returned [OF assms(1)] by blast
  obtain token code where ok: "Ok resp"
    and tr: "trace s2 = trace s1 @
               [Get2FACodeCall, JarNew (exchangeFilename w),
                HTTPRequest ''POST'' (base @ ''/1.1/do2fa'') (exchangeOptions token code fresh),
                JarSave fresh]"
    using checkAndDo2FA_resolved [OF assms(2,3) b] assms(5) by blast
  have 1: "200 \<le> StatusCode resp \<and> StatusCode resp < 300"
    using checkAndDo2FA_Returned_status [OF assms(3) dispatch_response [OF assms(1)]] ok by simp
  have fin: "trace ?final = trace s2 @ [JarSave (Client.CookieJar client)]"
    using ok
    by (simp add: doRequest_received [OF assms(1)] assms(3) Jar_Save_def emit_def
        split: option.splits)
  have "\<not> isJarSave e"
    using e(1) by (cases e) simp_all
  then have 2: "filter isJarSave (since s ?final) = [JarSave fresh, JarSave (Client.CookieJar client)]"
    by (simp add: since_def fin tr e(2))
  have "jar_id fresh = nextJar s"
    using assms(5) n by simp
  then have 3: "fresh \<noteq> Client.CookieJar client"
    using assms(4) by auto
  have 4: "map requestJar (filter isHTTPRequest (since s1 ?final)) = [Some fresh]"
    by (simp add: since_def fin tr exchangeOptions_def)
  have 5: "Filename fresh = Join w [ConfigDir w, ''leancloud'', ''cookies'']"
    using assms(5) by (simp add: exchangeFilename_def)
  have 6: "NewClientByRegion w region s0 = (Inr client, s0') \<and>
              Join w [Join w [ConfigDir w, ''leancloud''], ''cookies'']
                = Join w [ConfigDir w, ''leancloud'', ''cookies''] \<longrightarrow>
              Filename (Client.CookieJar client) = Filename fresh"
    using 5 NewClientByRegion_jar by metis
  from 1 2 3 4 5 6 show ?thesis by blast
qed

text \<open>The run of \<open>/login\<close> for the client that \<open>NewClientByRegion\<close> builds for CN.\<close>

theorem exchange_saves_two_jars_witness:
  "filter isJarSave
     (since exampleState
        (snd (doRequest exampleWorld exampleClient ''GET'' ''/login'' None None exampleState)))
     = [JarSave exchangeJar, JarSave (Client.CookieJar exampleClient)]
   \<and> exchangeJar \<noteq> Client.CookieJar exampleClient
   \<and> map requestJar
       (filter isHTTPRequest
          (since afterLogin
             (snd (doRequest exampleWorld exampleClient ''GET'' ''/login'' None None exampleState))))
       = [Some exchangeJar]
   \<and> Filename (Client.CookieJar exampleClient) = Filename exchangeJar"
proof -
  note w = sameDashboard_worlds(1)
  have a: "jar_id (Client.CookieJar exampleClient) < nextJar exampleState"
    by (simp add: exampleClient_def exampleState_def)
  have n: "NewClientByRegion exampleWorld CN \<lparr>trace = [], nextJar = 0\<rparr> =
     (Inr exampleClient,
      \<lparr>trace = [MkdirAll ''/home/u/.config/leancloud'',
                JarNew ''/home/u/.config/leancloud/cookies''],
       nextJar = 1\<rparr>)"
    by (simp add: example_NewClientByRegion) (simp add: exampleClient_def)
  have l: "Join exampleWorld [Join exampleWorld [ConfigDir exampleWorld, ''leancloud''], ''cookies'']
                = Join exampleWorld [ConfigDir exampleWorld, ''leancloud'', ''cookies'']"
    by (simp add: exampleWorld_def)
  show ?thesis
    using exchange_saves_two_jars [OF example_login_dispatch [OF w refl] example_status
        example_login_handler a example_exchangeJar [OF w, symmetric],
        of CN "\<lparr>trace = [], nextJar = 0\<rparr>"] n l
    by simp
qed

text \<open>
  C10. The one request of the challenge handler is the POST of the exchange. Its
  options hold the JSON body of token and code and the new jar; the headers are nil,
  the user agent is empty and \<open>UseCookieJar\<close> is not set. The options that \<open>options\<close>
  returns do have the header \<open>X-XSRF-TOKEN\<close> and the user agent of the client.
\<close>

theorem exchange_POST_options:
  assumes "StatusCode r = 401"
    and "decodeToken w (body r) = Inr token"
    and "Get2FACode w (trace s) = Inr code"
    and "jarLoad w (trace s @ [Get2FACodeCall]) (exchangeFilename w) = None"
    and "GetBaseURL w client = Inr base"
    and "ro = exchangeOptions token code \<lparr>jar_id = nextJar s, Filename = exchangeFilename w\<rparr>"
  shows "filter isHTTPRequest (since s (snd (checkAndDo2FA w client r s)))
           = [HTTPRequest ''POST'' (base @ ''/1.1/do2fa'') ro]
         \<and> JSON ro = Some (AnyMap [''token'' \<mapsto> AnyString token, ''code'' \<mapsto> AnyInt code])
         \<and> RequestOptions.CookieJar ro = Some \<lparr>jar_id = nextJar s, Filename = exchangeFilename w\<rparr>
         \<and> Headers ro = None
         \<and> UserAgent ro = ''''
         \<and> \<not> UseCookieJar ro
         \<and> (options w client s' = Returned dro \<longrightarrow>
              (\<exists>h xsrf. Headers dro = Some h \<and> h ''X-XSRF-TOKEN'' = Some xsrf)
              \<and> UserAgent dro = ''LeanCloud-CLI/'' @ Version w
              \<and> UserAgent dro \<noteq> ''''
              \<and> UseCookieJar dro)"
proof -
  have 1: "filter isHTTPRequest (since s (snd (checkAndDo2FA w client r s)))
           = [HTTPRequest ''POST'' (base @ ''/1.1/do2fa'') ro]"
    using assms(6)
    by (simp add: checkAndDo2FA_exchange [OF assms(1-5)] Let_def since_def
        split: sum.splits option.splits)
  have 2: "options w client s' = Returned dro \<longrightarrow>
              (\<exists>h xsrf. Headers dro = Some h \<and> h ''X-XSRF-TOKEN'' = Some xsrf)
              \<and> UserAgent dro = ''LeanCloud-CLI/'' @ Version w
              \<and> UserAgent dro \<noteq> ''''
              \<and> UseCookieJar dro"
    by (auto simp: options_def split: sum.splits)
  show ?thesis
    using 1 2 assms(6) by (simp add: exchangeOptions_def)
qed

text \<open>The POST of the run of \<open>/login\<close>, beside the default options of that run.\<close>

theorem exchange_POST_options_witness:
  "filter isHTTPRequest
     (since afterLogin (snd (checkAndDo2FA exampleWorld exampleClient loginResponse afterLogin)))
     = [HTTPRequest ''POST'' ''https://leancloud.cn/1.1/do2fa''
          \<lparr>Headers = None,
           JSON = Some (AnyMap [''token'' \<mapsto> AnyString ''abc'', ''code'' \<mapsto> AnyInt 123456]),
           CookieJar = Some exchangeJar,
           UseCookieJar = False,
           UserAgent = ''''\<rparr>]
   \<and> Headers exampleOptions = Some [''X-XSRF-TOKEN'' \<mapsto> ''x1'']
   \<and> UserAgent exampleOptions = ''LeanCloud-CLI/0.1.0''
   \<and> UseCookieJar exampleOptions"
proof -
  note w = sameDashboard_worlds(1)
  have c: "Get2FACode exampleWorld (trace afterLogin) = Inr 123456"
    by (simp add: exampleWorld_def example_code)
  have j: "jarLoad exampleWorld (trace afterLogin @ [Get2FACodeCall]) (exchangeFilename exampleWorld)
             = None"
    by (simp add: exampleWorld_def)
  have v: "Version exampleWorld = ''0.1.0''"
    by (simp add: exampleWorld_def)
  show ?thesis
    using exchange_POST_options [OF example_status example_token [OF w] c j example_base [OF w] refl,
        of exampleState exampleOptions]
      example_options [OF w refl, of exampleState]
    by (simp add: example_exchangeJar [OF w] exchangeOptions_def v)
      (simp add: exampleOptions_def)
qed

end
